theory Spec2Isabelle
  imports Complex_Main "HOL-Library.AList"
begin

section \<open>Numbers and missing values\<close>

text \<open>
  The program computes on Python and pandas floats. A float is modelled as an exact
  \<^typ>\<open>real\<close>; rounding and the infinities are outside the model. The pandas missing
  value NaN is \<^term>\<open>None\<close>, so a cell of a table is a \<^typ>\<open>real option\<close>.
\<close>

type_synonym cell = "real option"

section \<open>AQI derivation (data\_collector.py)\<close>

text \<open>
  A breakpoint bracket is the tuple \<open>(bp_lo, bp_hi, aqi_lo, aqi_hi)\<close>. The dictionary
  \<open>breakpoints\<close> of \<open>get_aqi_value\<close> is an association list in the source's order.
\<close>

type_synonym bracket = "real \<times> real \<times> real \<times> real"

definition breakpoints :: "(string \<times> bracket list) list" where
  "breakpoints =
    [(''pm25'', [(0, 12, 0, 50), (12.1, 35.4, 51, 100), (35.5, 55.4, 101, 150),
                 (55.5, 150.4, 151, 200), (150.5, 250.4, 201, 300), (250.5, 500.4, 301, 500)]),
     (''pm10'', [(0, 54, 0, 50), (55, 154, 51, 100), (155, 254, 101, 150),
                 (255, 354, 151, 200), (355, 424, 201, 300), (425, 604, 301, 500)]),
     (''no2'',  [(0, 53, 0, 50), (54, 100, 51, 100), (101, 360, 101, 150),
                 (361, 649, 151, 200), (650, 1249, 201, 300), (1250, 2049, 301, 500)])]"

text \<open>
  The \<open>for\<close> loop over the brackets of one pollutant: the first bracket that contains
  the concentration decides; falling off the end of the loop is \<open>return 500\<close>.
\<close>

fun scan_brackets :: "bracket list \<Rightarrow> real \<Rightarrow> real" where
  "scan_brackets [] concentration = 500"
| "scan_brackets ((bp_lo, bp_hi, aqi_lo, aqi_hi) # rest) concentration =
     (if bp_lo \<le> concentration \<and> concentration \<le> bp_hi
      then ((aqi_hi - aqi_lo) / (bp_hi - bp_lo)) * (concentration - bp_lo) + aqi_lo
      else scan_brackets rest concentration)"

text \<open>
  \<open>get_aqi_value(concentration, pollutant)\<close>: an unknown pollutant or a NaN
  concentration gives 0.
\<close>

definition get_aqi_value :: "cell \<Rightarrow> string \<Rightarrow> real" where
  "get_aqi_value concentration pollutant =
     (case map_of breakpoints pollutant of
        None \<Rightarrow> 0
      | Some bps \<Rightarrow>
          (case concentration of
             None \<Rightarrow> 0
           | Some c \<Rightarrow> scan_brackets bps c))"

text \<open>
  A row of the pivoted table maps a column name to its cell; a column that the table
  does not have is absent from the map, a column whose value is NaN maps to \<^term>\<open>None\<close>.
\<close>

type_synonym row = "string \<rightharpoonup> cell"

text \<open>
  The loop \<open>for pollutant in ["pm25", "pm10", "no2"]\<close> that fills \<open>aqi_values\<close>:
  a sub-index is appended only when the pollutant is in the row, is not NaN, and the
  sub-index is positive.
\<close>

fun aqi_values :: "row \<Rightarrow> string list \<Rightarrow> real list" where
  "aqi_values r [] = []"
| "aqi_values r (pollutant # ps) =
     (case r pollutant of
        Some (Some c) \<Rightarrow>
          (let aqi_val = get_aqi_value (Some c) pollutant
           in if aqi_val > 0 then aqi_val # aqi_values r ps else aqi_values r ps)
      | _ \<Rightarrow> aqi_values r ps)"

definition pollutants :: "string list" where
  "pollutants = [''pm25'', ''pm10'', ''no2'']"

text \<open>\<open>_calculate_aqi(row)\<close>: \<open>max(aqi_values) if aqi_values else 100\<close>.\<close>

definition calculate_aqi :: "row \<Rightarrow> real" where
  "calculate_aqi r =
     (let vs = aqi_values r pollutants
      in if vs = [] then 100 else Max (set vs))"

text \<open>
  The sentence of the specification that \<open>calculate_aqi\<close> is compared with: the
  per-pollutant sub-indices over the pollutants present and non-missing, with no further
  filter.
\<close>

definition present_sub_indices :: "row \<Rightarrow> real list" where
  "present_sub_indices r =
     concat (map (\<lambda>p. case r p of Some (Some c) \<Rightarrow> [get_aqi_value (Some c) p] | _ \<Rightarrow> [])
                 pollutants)"

text \<open>A concentration lies in a bracket of the pollutant's table.\<close>

definition in_some_bracket :: "string \<Rightarrow> real \<Rightarrow> bool" where
  "in_some_bracket pollutant c =
     (case map_of breakpoints pollutant of
        None \<Rightarrow> False
      | Some bps \<Rightarrow> list_ex (\<lambda>(bp_lo, bp_hi, aqi_lo, aqi_hi). bp_lo \<le> c \<and> c \<le> bp_hi) bps)"

text \<open>
  A table of brackets is ordered when every bracket has \<open>bp_lo < bp_hi\<close> and
  \<open>aqi_lo \<le> aqi_hi\<close>, and each bracket starts above the end of the one before it, in
  concentration and in index. The three tables of \<open>breakpoints\<close> are ordered.
\<close>

fun ordered_brackets :: "bracket list \<Rightarrow> bool" where
  "ordered_brackets [] = True"
| "ordered_brackets [(lo, hi, alo, ahi)] = (lo < hi \<and> alo \<le> ahi)"
| "ordered_brackets ((lo, hi, alo, ahi) # (lo', hi', alo', ahi') # rest) =
     (lo < hi \<and> alo \<le> ahi \<and> hi < lo' \<and> ahi \<le> alo'
      \<and> ordered_brackets ((lo', hi', alo', ahi') # rest))"

abbreviation inside :: "real \<Rightarrow> bracket \<Rightarrow> bool" where
  "inside c \<equiv> (\<lambda>(bp_lo, bp_hi, aqi_lo, aqi_hi). bp_lo \<le> c \<and> c \<le> bp_hi)"

section \<open>Health-risk scoring (health\_risk\_analysis.py)\<close>

text \<open>
  A dictionary lookup \<open>d[k]\<close> with a missing key raises \<open>KeyError\<close>; the exceptions
  the modelled functions raise are values of this type.
\<close>

datatype error = KeyError string | ValueError string | Exception string

text \<open>
  The dictionaries \<open>vulnerability_factors\<close> and \<open>city_demographics\<close> of
  \<open>HealthRiskAnalyzer.__init__\<close>, as association lists in the source's order.
\<close>

definition vulnerability_factors :: "(string \<times> real) list" where
  "vulnerability_factors =
    [(''children_under_5'', 1.8),
     (''elderly_over_65'', 1.6),
     (''respiratory_conditions'', 2.2),
     (''cardiovascular_conditions'', 1.9),
     (''pregnant_women'', 1.4),
     (''outdoor_workers'', 1.5)]"

definition city_demographics :: "(string \<times> (string \<times> real) list) list" where
  "city_demographics =
    [(''Delhi'',
        [(''children_under_5'', 8.2), (''elderly_over_65'', 4.6),
         (''respiratory_conditions'', 12.5), (''cardiovascular_conditions'', 8.9),
         (''pregnant_women'', 2.1), (''outdoor_workers'', 28.5),
         (''population'', 32900000), (''low_income_percentage'', 35.2)]),
     (''Mumbai'',
        [(''children_under_5'', 7.8), (''elderly_over_65'', 5.2),
         (''respiratory_conditions'', 10.8), (''cardiovascular_conditions'', 7.6),
         (''pregnant_women'', 1.9), (''outdoor_workers'', 31.2),
         (''population'', 20700000), (''low_income_percentage'', 41.3)]),
     (''Kolkata'',
        [(''children_under_5'', 8.9), (''elderly_over_65'', 6.1),
         (''respiratory_conditions'', 14.2), (''cardiovascular_conditions'', 9.8),
         (''pregnant_women'', 2.0), (''outdoor_workers'', 25.7),
         (''population'', 15000000), (''low_income_percentage'', 32.8)]),
     (''Chennai'',
        [(''children_under_5'', 7.5), (''elderly_over_65'', 5.8),
         (''respiratory_conditions'', 9.8), (''cardiovascular_conditions'', 7.2),
         (''pregnant_women'', 1.8), (''outdoor_workers'', 23.4),
         (''population'', 11700000), (''low_income_percentage'', 29.6)]),
     (''Bangalore'',
        [(''children_under_5'', 7.2), (''elderly_over_65'', 4.9),
         (''respiratory_conditions'', 8.9), (''cardiovascular_conditions'', 6.8),
         (''pregnant_women'', 1.9), (''outdoor_workers'', 22.1),
         (''population'', 13200000), (''low_income_percentage'', 26.4)]),
     (''Hyderabad'',
        [(''children_under_5'', 7.8), (''elderly_over_65'', 5.1),
         (''respiratory_conditions'', 10.2), (''cardiovascular_conditions'', 7.5),
         (''pregnant_women'', 2.0), (''outdoor_workers'', 24.8),
         (''population'', 10500000), (''low_income_percentage'', 31.2)])]"

text \<open>The \<open>if\<close>/\<open>elif\<close> chain that sets \<open>base_risk\<close> from the AQI.\<close>

definition base_risk :: "real \<Rightarrow> real" where
  "base_risk aqi_value =
     (if aqi_value \<le> 50 then 0.1
      else if aqi_value \<le> 100 then 0.3
      else if aqi_value \<le> 150 then 0.6
      else if aqi_value \<le> 200 then 0.8
      else if aqi_value \<le> 300 then 0.95
      else 1.0)"

text \<open>
  The loop \<open>for group, vulnerability in self.vulnerability_factors.items()\<close>; the
  accumulator (\<open>grp\<close> is the source's \<open>group\<close>) is \<open>(total_risk, total_population_factor)\<close>, both 0 at the start.
\<close>

fun accumulate_groups ::
  "real \<Rightarrow> (string \<times> real) list \<Rightarrow> (string \<times> real) list \<Rightarrow> real \<times> real \<Rightarrow> real \<times> real" where
  "accumulate_groups b demographics [] acc = acc"
| "accumulate_groups b demographics ((grp, vulnerability) # rest)
       (total_risk, total_population_factor) =
     (case map_of demographics grp of
        None \<Rightarrow> accumulate_groups b demographics rest (total_risk, total_population_factor)
      | Some percentage \<Rightarrow>
          (let pop_percentage = percentage / 100;
               group_risk = b * vulnerability * pop_percentage
           in accumulate_groups b demographics rest
                (total_risk + group_risk, total_population_factor + pop_percentage)))"

text \<open>\<open>calculate_health_risk_score(aqi_value, city_name)\<close>.\<close>

definition calculate_health_risk_score :: "real \<Rightarrow> string \<Rightarrow> error + real" where
  "calculate_health_risk_score aqi_value city_name =
     (let city = (if map_of city_demographics city_name = None then ''Delhi'' else city_name)
      in case map_of city_demographics city of
           None \<Rightarrow> Inl (KeyError city)
         | Some demographics \<Rightarrow>
             (let b = base_risk aqi_value;
                  (total_risk, total_population_factor) =
                     accumulate_groups b demographics vulnerability_factors (0, 0);
                  weighted_risk =
                     (if total_population_factor > 0 then total_risk / total_population_factor
                      else b)
              in case map_of demographics ''low_income_percentage'' of
                   None \<Rightarrow> Inl (KeyError ''low_income_percentage'')
                 | Some low_income_percentage \<Rightarrow>
                     (let low_income_factor = 1 + (low_income_percentage / 100 * 0.3)
                      in Inr (min (weighted_risk * low_income_factor) 1.0))))"

text \<open>
  The formula of the specification that \<open>calculate_health_risk_score\<close> is compared
  with. \<open>group_share\<close> is the share of a group in a city's population (its percentage
  over 100), \<open>weighted_risk\<close> the share-weighted average of
  \<open>base_risk \<times> multiplier\<close> over the groups of \<open>vulnerability_factors\<close>.
\<close>

definition known_cities :: "string list" where
  "known_cities = map fst city_demographics"

definition demographic_value :: "string \<Rightarrow> string \<Rightarrow> real" where
  "demographic_value city key =
     (case map_of city_demographics city of
        None \<Rightarrow> 0
      | Some demographics \<Rightarrow> (case map_of demographics key of None \<Rightarrow> 0 | Some v \<Rightarrow> v))"

definition group_share :: "string \<Rightarrow> string \<Rightarrow> real" where
  "group_share city grp = demographic_value city grp / 100"

definition weighted_risk :: "real \<Rightarrow> string \<Rightarrow> real" where
  "weighted_risk aqi_value city =
     (\<Sum>(grp, multiplier) \<leftarrow> vulnerability_factors.
         base_risk aqi_value * multiplier * group_share city grp)
     / (\<Sum>(grp, multiplier) \<leftarrow> vulnerability_factors. group_share city grp)"

definition simple_mean_risk :: "real \<Rightarrow> real" where
  "simple_mean_risk aqi_value =
     (\<Sum>(grp, multiplier) \<leftarrow> vulnerability_factors. base_risk aqi_value * multiplier)
     / real (length vulnerability_factors)"

text \<open>
  Two quantities of the proofs: the share-weighted mean of the multipliers of a city, and
  that mean times the city's low-income factor. The score of a known city is
  \<open>min (base_risk \<times> risk_factor) 1\<close>.
\<close>

definition mean_multiplier :: "string \<Rightarrow> real" where
  "mean_multiplier city =
     (\<Sum>(grp, multiplier) \<leftarrow> vulnerability_factors. multiplier * group_share city grp)
     / (\<Sum>(grp, multiplier) \<leftarrow> vulnerability_factors. group_share city grp)"

definition risk_factor :: "string \<Rightarrow> real" where
  "risk_factor city =
     (\<Sum>(grp, multiplier) \<leftarrow> vulnerability_factors. multiplier * group_share city grp)
     / (\<Sum>(grp, multiplier) \<leftarrow> vulnerability_factors. group_share city grp)
     * (1 + demographic_value city ''low_income_percentage'' / 100 * 0.3)"

section \<open>Forecasting pipeline (ml\_models.py)\<close>

subsection \<open>Tables\<close>

text \<open>
  A pandas DataFrame is modelled by its \<open>timestamp\<close> column (seconds since the epoch)
  and its numeric columns, an association list from the column name to the cells, in
  column order. In a well-formed table each column is as long as the timestamp column.
  The text columns of the program's tables (location, city, country) are never missing
  and take no part in the computations below; they are left out.
\<close>

record dataframe =
  timestamp :: "int list"
  columns :: "(string \<times> cell list) list"

definition well_formed :: "dataframe \<Rightarrow> bool" where
  "well_formed df =
     (distinct (map fst (columns df))
      \<and> list_all (\<lambda>(name, c). length c = length (timestamp df)) (columns df))"

text \<open>\<open>len(df)\<close>, \<open>df.empty\<close>, \<open>pd.DataFrame()\<close>, \<open>df[name]\<close> and \<open>df[name] = vals\<close>.\<close>

definition len :: "dataframe \<Rightarrow> nat" where
  "len df = length (timestamp df)"

definition df_empty :: "dataframe \<Rightarrow> bool" where
  "df_empty df = (timestamp df = [])"

definition no_frame :: dataframe where
  "no_frame = \<lparr>timestamp = [], columns = []\<rparr>"

definition column :: "dataframe \<Rightarrow> string \<Rightarrow> cell list option" where
  "column df name = map_of (columns df) name"

definition set_column :: "string \<Rightarrow> cell list \<Rightarrow> dataframe \<Rightarrow> dataframe" where
  "set_column name vals df = df\<lparr>columns := AList.update name vals (columns df)\<rparr>"

text \<open>The rows at the given positions, in the given order.\<close>

definition take_rows :: "nat list \<Rightarrow> dataframe \<Rightarrow> dataframe" where
  "take_rows idx df =
     \<lparr>timestamp = map (\<lambda>i. timestamp df ! i) idx,
      columns = map (\<lambda>(name, c). (name, map (\<lambda>i. c ! i) idx)) (columns df)\<rparr>"

text \<open>
  \<open>data.sort_values('timestamp')\<close>: the rows in ascending timestamp order. The model
  keeps rows of equal timestamp in their input order.
\<close>

definition sort_values :: "dataframe \<Rightarrow> dataframe" where
  "sort_values df = take_rows (sort_key (\<lambda>i. timestamp df ! i) [0..<len df]) df"

text \<open>
  \<open>data.dropna()\<close>: the rows in which no column is missing.
\<close>

definition row_complete :: "dataframe \<Rightarrow> nat \<Rightarrow> bool" where
  "row_complete df i = list_all (\<lambda>(name, c). c ! i \<noteq> None) (columns df)"

definition dropna :: "dataframe \<Rightarrow> dataframe" where
  "dropna df = take_rows (filter (row_complete df) [0..<len df]) df"

subsection \<open>Column operations\<close>

text \<open>
  \<open>Series.shift(period)\<close> for a period that is not negative: the first \<open>period\<close>
  cells are missing, cell \<open>i\<close> is the input's cell \<open>i - period\<close>.
\<close>

definition shift :: "nat \<Rightarrow> cell list \<Rightarrow> cell list" where
  "shift period xs = replicate (min period (length xs)) None @ take (length xs - period) xs"

text \<open>
  \<open>Series.rolling(window=w)\<close>: the window of row \<open>i\<close> is the \<open>w\<close> rows that end at
  row \<open>i\<close>. With the default \<open>min_periods = w\<close> the statistic is missing when the window
  is not full or holds a missing value. \<open>mean\<close> is the arithmetic mean, \<open>std\<close> the
  sample standard deviation (one degree of freedom less), missing for a window of one.
\<close>

definition window_at :: "nat \<Rightarrow> nat \<Rightarrow> cell list \<Rightarrow> cell list" where
  "window_at w i xs = take w (drop (Suc i - w) xs)"

definition mean :: "real list \<Rightarrow> real" where
  "mean xs = sum_list xs / real (length xs)"

definition std :: "real list \<Rightarrow> real" where
  "std xs = sqrt ((\<Sum>x \<leftarrow> xs. (x - mean xs)\<^sup>2) / real (length xs - 1))"

definition rolling :: "(real list \<Rightarrow> real) \<Rightarrow> nat \<Rightarrow> cell list \<Rightarrow> cell list" where
  "rolling stat w xs =
     map (\<lambda>i. if Suc i < w then None
              else (let win = window_at w i xs
                    in if None \<in> set win then None else Some (stat (map the win))))
         [0..<length xs]"

definition rolling_mean :: "nat \<Rightarrow> cell list \<Rightarrow> cell list" where
  "rolling_mean w xs = rolling mean w xs"

definition rolling_std :: "nat \<Rightarrow> cell list \<Rightarrow> cell list" where
  "rolling_std w xs = (if w < 2 then replicate (length xs) None else rolling std w xs)"

text \<open>\<open>str(n)\<close> for the f-strings that name the engineered columns.\<close>

fun str_nat :: "nat \<Rightarrow> string" where
  "str_nat n =
     (if n < 10 then [''0123456789'' ! n]
      else str_nat (n div 10) @ [''0123456789'' ! (n mod 10)])"

declare str_nat.simps [simp del]

subsection \<open>Feature engineering: \<open>prepare_features\<close>\<close>

text \<open>
  The pandas accessors \<open>dt.hour\<close>, \<open>dt.dayofweek\<close>, \<open>dt.month\<close>, \<open>dt.dayofyear\<close> and
  the generator \<open>np.random.random\<close> belong to the libraries; the model takes them as
  parameters. \<open>random env i\<close> is the draw for row \<open>i\<close>.
\<close>

record env =
  hour :: "int \<Rightarrow> nat"
  dayofweek :: "int \<Rightarrow> nat"
  month :: "int \<Rightarrow> nat"
  dayofyear :: "int \<Rightarrow> nat"
  random :: "nat \<Rightarrow> real"

definition feature_cols :: "string list" where
  "feature_cols = [''pm25'', ''pm10'', ''no2'', ''aqi'']"

definition lag_periods :: "nat list" where
  "lag_periods = [1, 3, 6, 12, 24]"

definition window_sizes :: "nat list" where
  "window_sizes = [6, 12, 24]"

definition add_time_features :: "env \<Rightarrow> dataframe \<Rightarrow> dataframe" where
  "add_time_features e df =
     (let of_ts = (\<lambda>f. map (\<lambda>t. Some (real (f t))) (timestamp df));
          d1 = set_column ''hour'' (of_ts (hour e)) df;
          d2 = set_column ''day_of_week'' (of_ts (dayofweek e)) d1;
          d3 = set_column ''month'' (of_ts (month e)) d2
      in set_column ''day_of_year'' (of_ts (dayofyear e)) d3)"

text \<open>
  The body of the lag loops, \<open>if col in data.columns: data[f'{col}_lag_{period}'] =
  data[col].shift(period)\<close>, and the two loops around it.
\<close>

definition assign_lag :: "nat \<Rightarrow> string \<Rightarrow> dataframe \<Rightarrow> dataframe" where
  "assign_lag period col df =
     (case column df col of
        None \<Rightarrow> df
      | Some c \<Rightarrow> set_column (col @ ''_lag_'' @ str_nat period) (shift period c) df)"

definition add_lag_features :: "dataframe \<Rightarrow> dataframe" where
  "add_lag_features df =
     fold (\<lambda>period d. fold (\<lambda>col d'. assign_lag period col d') feature_cols d) lag_periods df"

text \<open>
  The body of the rolling loops: under \<open>if col in data.columns\<close>, the rolling mean and
  then the rolling standard deviation of \<open>data[col]\<close>, each read when it is assigned.
\<close>

definition assign_rolling :: "nat \<Rightarrow> string \<Rightarrow> dataframe \<Rightarrow> dataframe" where
  "assign_rolling window col df =
     (case column df col of
        None \<Rightarrow> df
      | Some c \<Rightarrow>
          (let d1 = set_column (col @ ''_rolling_mean_'' @ str_nat window)
                      (rolling_mean window c) df
           in case column d1 col of
                None \<Rightarrow> d1
              | Some c1 \<Rightarrow>
                  set_column (col @ ''_rolling_std_'' @ str_nat window)
                    (rolling_std window c1) d1))"

definition add_rolling_features :: "dataframe \<Rightarrow> dataframe" where
  "add_rolling_features df =
     fold (\<lambda>window d. fold (\<lambda>col d'. assign_rolling window col d') feature_cols d)
       window_sizes df"

text \<open>
  The synthetic weather columns. They are computed cell by cell from the columns
  \<open>hour\<close> and \<open>day_of_year\<close> assigned before; a missing cell stays missing.
\<close>

definition cellwise :: "(real \<Rightarrow> real) \<Rightarrow> cell list \<Rightarrow> cell list" where
  "cellwise f xs = map (map_option f) xs"

definition cellwise2 :: "(real \<Rightarrow> real \<Rightarrow> real) \<Rightarrow> cell list \<Rightarrow> cell list \<Rightarrow> cell list" where
  "cellwise2 f xs ys =
     map (\<lambda>(x, y). case (x, y) of (Some a, Some b) \<Rightarrow> Some (f a b) | _ \<Rightarrow> None) (zip xs ys)"

definition add_weather_features :: "env \<Rightarrow> dataframe \<Rightarrow> dataframe" where
  "add_weather_features e df =
     (case (column df ''hour'', column df ''day_of_year'') of
        (Some hours, Some days) \<Rightarrow>
          (let d1 = set_column ''temp_estimate''
                      (cellwise2 (\<lambda>h d. 25 + 10 * sin (2 * pi * h / 24)
                                            + 5 * sin (2 * pi * d / 365)) hours days) df;
               d2 = set_column ''humidity_estimate''
                      (cellwise (\<lambda>h. 60 + 20 * sin (2 * pi * (h + 6) / 24)) hours) d1
           in set_column ''wind_speed_estimate''
                (map (\<lambda>i. Some (5 + 3 * random e i)) [0..<len d2]) d2)
      | _ \<Rightarrow> df)"

text \<open>\<open>prepare_features(df)\<close>.\<close>

definition engineered :: "env \<Rightarrow> dataframe \<Rightarrow> dataframe" where
  "engineered e df =
     add_weather_features e
       (add_rolling_features (add_lag_features (add_time_features e (sort_values df))))"

definition prepare_features :: "env \<Rightarrow> dataframe \<Rightarrow> dataframe" where
  "prepare_features e df = (if df_empty df then no_frame else dropna (engineered e df))"

subsection \<open>The predictor and its libraries\<close>

text \<open>
  The state of an \<open>AirQualityPredictor\<close>. A fitted random forest is its prediction
  function on a scaled feature row and its feature importances; the fitted scaler is its
  \<open>transform\<close>; \<open>arima_model\<close> is the series an ARIMA model of order (2, 1, 2) was
  built on, and \<open>arima_fitted\<close> the fit result (the attribute does not exist before the
  first successful training: \<^term>\<open>None\<close>).
\<close>

record forest =
  predict :: "real list \<Rightarrow> real"
  feature_importances :: "real list"

record arima_results =
  fittedvalues :: "real list"
  aic :: real
  bic :: real

record predictor =
  rf_model :: "forest option"
  arima_model :: "cell list option"
  arima_fitted :: "arima_results option"
  scaler :: "real list \<Rightarrow> real list"
  feature_columns :: "string list option"
  is_trained :: bool

text \<open>
  \<open>str(e)\<close> of an exception, and the \<open>except Exception as e: raise Exception(f"...{str(e)}")\<close>
  wrappers of the two methods.
\<close>

fun str_error :: "error \<Rightarrow> string" where
  "str_error (KeyError k) = [CHR 0x27] @ k @ [CHR 0x27]"
| "str_error (ValueError msg) = msg"
| "str_error (Exception msg) = msg"

definition arima_training_error :: "error \<Rightarrow> error" where
  "arima_training_error e = Exception (''Error training ARIMA model: '' @ str_error e)"

definition rf_prediction_error :: "error \<Rightarrow> error" where
  "rf_prediction_error e = Exception (''Error making Random Forest prediction: '' @ str_error e)"

subsection \<open>Autoregressive training: \<open>train_arima\<close>\<close>

text \<open>
  \<open>data[target_column].resample('H').mean()\<close> on the sorted table: one point for every
  hour from the hour of the first row to the hour of the last row, the mean of the
  non-missing values of the rows in that hour, missing when there is none.
\<close>

definition hour_bin :: "int \<Rightarrow> int" where
  "hour_bin t = t div 3600"

definition bin_mean :: "real list \<Rightarrow> cell" where
  "bin_mean vs = (if vs = [] then None else Some (mean vs))"

definition resample_hourly_mean :: "int list \<Rightarrow> cell list \<Rightarrow> cell list" where
  "resample_hourly_mean ts vals =
     (case ts of
        [] \<Rightarrow> []
      | first # _ \<Rightarrow>
          map (\<lambda>h. bin_mean (concat (map (\<lambda>(t, v). case v of
                                          None \<Rightarrow> []
                                        | Some x \<Rightarrow> if hour_bin t = h then [x] else [])
                                      (zip ts vals))))
              [hour_bin first..hour_bin (last ts)])"

text \<open>\<open>fillna(method='ffill')\<close>: a missing point takes the last value before it.\<close>

fun ffill_from :: "cell \<Rightarrow> cell list \<Rightarrow> cell list" where
  "ffill_from prev [] = []"
| "ffill_from prev (None # xs) = prev # ffill_from prev xs"
| "ffill_from prev (Some v # xs) = Some v # ffill_from (Some v) xs"

definition ffill :: "cell list \<Rightarrow> cell list" where
  "ffill xs = ffill_from None xs"

text \<open>The hourly series \<open>ts_data\<close> that \<open>train_arima\<close> builds from a table that is not empty.\<close>

definition hourly_target :: "dataframe \<Rightarrow> string \<Rightarrow> error + cell list" where
  "hourly_target df target_column =
     (let data = sort_values df
      in case column data target_column of
           None \<Rightarrow> Inl (KeyError target_column)
         | Some target \<Rightarrow> Inr (ffill (resample_hourly_mean (timestamp data) target)))"

text \<open>
  The metrics on the training data: \<open>actuals = ts_data[1:]\<close>, both series cut to the
  shorter length, then the mean absolute error, the mean squared error and its root
  (scikit-learn raises \<open>ValueError\<close> on a missing value), with the fit's AIC and BIC.
\<close>

record arima_metrics =
  mae :: real
  mse :: real
  rmse :: real
  metrics_aic :: real
  metrics_bic :: real

definition training_metrics :: "cell list \<Rightarrow> arima_results \<Rightarrow> error + arima_metrics" where
  "training_metrics ts_data fitted_model =
     (let predictions = fittedvalues fitted_model;
          actuals = drop 1 ts_data;
          min_len = min (length predictions) (length actuals);
          predictions = (if length predictions \<noteq> length actuals
                         then take min_len predictions else predictions);
          actuals = (if length (fittedvalues fitted_model) \<noteq> length actuals
                     then take min_len actuals else actuals)
      in if None \<in> set actuals then Inl (ValueError ''Input contains NaN.'')
         else if actuals = [] then Inl (ValueError ''Found array with 0 sample(s)'')
         else
           (let errs = map (\<lambda>(a, p). the a - p) (zip actuals predictions);
                mean_squared_error = mean (map (\<lambda>d. d\<^sup>2) errs)
            in Inr \<lparr>mae = mean (map abs errs),
                    mse = mean_squared_error,
                    rmse = sqrt mean_squared_error,
                    metrics_aic = aic fitted_model,
                    metrics_bic = bic fitted_model\<rparr>))"

text \<open>
  \<open>train_arima(df, target_column)\<close>. \<open>fit\<close> stands for
  \<open>ARIMA(ts_data, order=(2, 1, 2)).fit()\<close> of statsmodels, which returns the results or
  raises. The function returns its result or exception together with the predictor
  state it leaves behind.
\<close>

definition train_arima ::
  "(cell list \<Rightarrow> error + arima_results) \<Rightarrow> predictor \<Rightarrow> dataframe \<Rightarrow> string
     \<Rightarrow> (error + arima_metrics) \<times> predictor" where
  "train_arima fit p df target_column =
     (if df_empty df
      then (Inl (arima_training_error (ValueError ''No training data available'')), p)
      else
        (case hourly_target df target_column of
           Inl e \<Rightarrow> (Inl (arima_training_error e), p)
         | Inr ts_data \<Rightarrow>
             if length ts_data < 48
             then (Inl (arima_training_error
                     (ValueError ''Insufficient data for ARIMA training (need at least 48 hours)'')),
                   p)
             else
               (let p1 = p\<lparr>arima_model := Some ts_data\<rparr>
                in case fit ts_data of
                     Inl e \<Rightarrow> (Inl (arima_training_error e), p1)
                   | Inr fitted_model \<Rightarrow>
                       (case training_metrics ts_data fitted_model of
                          Inl e \<Rightarrow> (Inl (arima_training_error e), p1)
                        | Inr metrics \<Rightarrow>
                            (Inr metrics, p1\<lparr>arima_fitted := Some fitted_model\<rparr>)))))"

subsection \<open>Tree-ensemble prediction: \<open>predict_next_day_rf\<close>\<close>

text \<open>
  \<open>processed_data.iloc[-1:][self.feature_columns].fillna(0)\<close>: the last row restricted
  to the feature columns, a missing cell replaced by 0; a feature column that the table
  does not have raises \<open>KeyError\<close>.
\<close>

fun latest_row :: "dataframe \<Rightarrow> string list \<Rightarrow> error + real list" where
  "latest_row df [] = Inr []"
| "latest_row df (name # names) =
     (case column df name of
        None \<Rightarrow> Inl (KeyError name)
      | Some c \<Rightarrow>
          (case latest_row df names of
             Inl e \<Rightarrow> Inl e
           | Inr vs \<Rightarrow> Inr ((case last c of None \<Rightarrow> 0 | Some v \<Rightarrow> v) # vs)))"

text \<open>
  \<open>sorted(feature_importance.items(), key=..., reverse=True)\<close>: by importance,
  descending, equal importances in their original order.
\<close>

definition sorted_importance :: "string list \<Rightarrow> real list \<Rightarrow> (string \<times> real) list" where
  "sorted_importance names importances = sort_key (\<lambda>(name, v). - v) (zip names importances)"

record prediction =
  predicted_aqi :: real
  feature_importance :: "(string \<times> real) list"
  prediction_interval :: "real \<times> real"

definition predict_next_day_rf :: "env \<Rightarrow> predictor \<Rightarrow> dataframe \<Rightarrow> error + prediction" where
  "predict_next_day_rf e p current_data =
     (case (is_trained p, rf_model p) of
        (True, Some model) \<Rightarrow>
          if df_empty current_data
          then Inl (rf_prediction_error (ValueError ''No current data for prediction''))
          else
            (let processed_data = prepare_features e current_data
             in if df_empty processed_data
                then Inl (rf_prediction_error
                       (ValueError ''No data available after feature preparation''))
                else
                  (case feature_columns p of
                     None \<Rightarrow> Inl (rf_prediction_error (KeyError ''None''))
                   | Some cols \<Rightarrow>
                       (case latest_row processed_data cols of
                          Inl err \<Rightarrow> Inl (rf_prediction_error err)
                        | Inr latest_data \<Rightarrow>
                            (let latest_scaled = scaler p latest_data;
                                 prediction = predict model latest_scaled
                             in Inr \<lparr>predicted_aqi = max 0 prediction,
                                     feature_importance =
                                       sorted_importance cols (feature_importances model),
                                     prediction_interval =
                                       (max 0 (prediction - 25), prediction + 25)\<rparr>))))
      | _ \<Rightarrow> Inl (rf_prediction_error (ValueError ''Random Forest model not trained'')))"

subsection \<open>An invariant of the feature table\<close>

text \<open>
  \<open>ready N df\<close> holds for the sorted table with no missing input value and for every
  table the feature steps make of it: the table has \<open>N\<close> rows and distinct column
  names, every column has \<open>N\<close> cells and none missing from row 24 on, and the four
  source columns have no missing cell at all.
\<close>

definition ready :: "nat \<Rightarrow> dataframe \<Rightarrow> bool" where
  "ready N df \<longleftrightarrow>
     len df = N \<and> distinct (map fst (columns df))
     \<and> (\<forall>name c. column df name = Some c \<longrightarrow>
           length c = N \<and> (\<forall>i. 24 \<le> i \<and> i < N \<longrightarrow> c ! i \<noteq> None))
     \<and> (\<forall>col c. col \<in> set feature_cols \<and> column df col = Some c \<longrightarrow> None \<notin> set c)"

subsection \<open>Example inputs\<close>

text \<open>
  Concrete inputs on which the theorems below are instantiated: an environment, a
  one-row table without pollutant columns, a three-hour table, a predictor that was never
  trained and two trained predictors whose forests predict 10 and 80.
\<close>

definition calm :: env where
  "calm = \<lparr>hour = (\<lambda>t. 0), dayofweek = (\<lambda>t. 3), month = (\<lambda>t. 1), dayofyear = (\<lambda>t. 1),
            random = (\<lambda>i. 0)\<rparr>"

definition one_row :: dataframe where
  "one_row = \<lparr>timestamp = [0], columns = [(''so2'', [Some 5])]\<rparr>"

definition three_hours :: dataframe where
  "three_hours =
     \<lparr>timestamp = [3600, 0, 7200], columns = [(''aqi'', [Some 120, Some 100, Some 140])]\<rparr>"

definition three_hours_changed :: dataframe where
  "three_hours_changed =
     \<lparr>timestamp = [3600, 0, 7200], columns = [(''aqi'', [Some 120, Some 100, Some 999])]\<rparr>"

definition untrained :: predictor where
  "untrained = \<lparr>rf_model = None, arima_model = None, arima_fitted = None,
      scaler = (\<lambda>row. row), feature_columns = None, is_trained = False\<rparr>"

definition low_forest :: predictor where
  "low_forest = \<lparr>rf_model = Some \<lparr>predict = (\<lambda>row. 10), feature_importances = [1]\<rparr>,
      arima_model = None, arima_fitted = None, scaler = (\<lambda>row. row),
      feature_columns = Some [''so2''], is_trained = True\<rparr>"

definition high_forest :: predictor where
  "high_forest = \<lparr>rf_model = Some \<lparr>predict = (\<lambda>row. 80), feature_importances = [1]\<rparr>,
      arima_model = None, arima_fitted = None, scaler = (\<lambda>row. row),
      feature_columns = Some [''so2''], is_trained = True\<rparr>"

definition flat_fit :: "cell list \<Rightarrow> error + arima_results" where
  "flat_fit ts_data = Inr \<lparr>fittedvalues = map (\<lambda>c. 0) ts_data, aic = 0, bic = 0\<rparr>"

definition hourly_day :: dataframe where
  "hourly_day =
     \<lparr>timestamp = map (\<lambda>i. 3600 * int i) [0..<25],
      columns = [(''aqi'', replicate 25 (Some 100))]\<rparr>"

section \<open>AQI derivation: properties\<close>

lemma map_of_breakpoints_pm25:
  "map_of breakpoints ''pm25'' =
     Some [(0, 12, 0, 50), (12.1, 35.4, 51, 100), (35.5, 55.4, 101, 150),
           (55.5, 150.4, 151, 200), (150.5, 250.4, 201, 300), (250.5, 500.4, 301, 500)]"
  by (simp add: breakpoints_def)

lemma map_of_breakpoints_pm10:
  "map_of breakpoints ''pm10'' =
     Some [(0, 54, 0, 50), (55, 154, 51, 100), (155, 254, 101, 150),
           (255, 354, 151, 200), (355, 424, 201, 300), (425, 604, 301, 500)]"
  by (simp add: breakpoints_def)

lemma map_of_breakpoints_no2:
  "map_of breakpoints ''no2'' =
     Some [(0, 53, 0, 50), (54, 100, 51, 100), (101, 360, 101, 150),
           (361, 649, 151, 200), (650, 1249, 201, 300), (1250, 2049, 301, 500)]"
  by (simp add: breakpoints_def)

lemmas map_of_breakpoints =
  map_of_breakpoints_pm25 map_of_breakpoints_pm10 map_of_breakpoints_no2

lemma scan_brackets_outside:
  "\<not> list_ex (\<lambda>(bp_lo, bp_hi, aqi_lo, aqi_hi). bp_lo \<le> c \<and> c \<le> bp_hi) bps
   \<Longrightarrow> scan_brackets bps c = 500"
  by (induction bps c rule: scan_brackets.induct) auto

lemma aqi_values_filter:
  "aqi_values r ps = filter (\<lambda>v. v > 0)
     (concat (map (\<lambda>p. case r p of Some (Some c) \<Rightarrow> [get_aqi_value (Some c) p] | _ \<Rightarrow> []) ps))"
  by (induction ps) (auto split: option.splits simp: Let_def)

lemma aqi_values_present:
  "aqi_values r pollutants = filter (\<lambda>v. v > 0) (present_sub_indices r)"
  by (simp only: aqi_values_filter present_sub_indices_def)

lemma Max_positive_part:
  fixes A :: "real set"
  assumes "finite A" "\<exists>v\<in>A. v > 0"
  shows "Max {v \<in> A. v > 0} = Max A"
proof -
  from assms obtain w where w: "w \<in> A" "w > 0" by blast
  have ne: "{v \<in> A. v > 0} \<noteq> {}" "A \<noteq> {}" using w by auto
  have fin: "finite {v \<in> A. v > 0}" using assms by simp
  have "Max A \<in> A" using assms ne by simp
  moreover have "Max A \<ge> w" using assms w by simp
  ultimately have "Max A \<in> {v \<in> A. v > 0}" using w by auto
  then have "Max A \<le> Max {v \<in> A. v > 0}" using fin by simp
  moreover have "Max {v \<in> A. v > 0} \<le> Max A"
    using assms ne fin by (intro Max_mono) auto
  ultimately show ?thesis by simp
qed

text \<open>
  Claim C1. The per-pollutant sub-index is meant to be a non-decreasing function of the
  concentration, continuous across bracket boundaries. The tables leave a gap between
  the upper end of one bracket and the lower end of the next (12 and 12.1 for PM2.5), and
  a concentration in a gap matches no bracket and falls through to \<open>return 500\<close>.
  Evaluated on the code: PM2.5 = 12 gives 50, PM2.5 = 12.05 gives 500 and PM2.5 = 12.1
  gives 51, so the sub-index decreases between 12.05 and 12.1.
\<close>

theorem get_aqi_value_gap_not_monotone:
  "get_aqi_value (Some 12) ''pm25'' = 50
   \<and> get_aqi_value (Some 12.05) ''pm25'' = 500
   \<and> get_aqi_value (Some 12.1) ''pm25'' = 51
   \<and> get_aqi_value (Some 12.1) ''pm25'' < get_aqi_value (Some 12.05) ''pm25''"
  by (simp add: get_aqi_value_def map_of_breakpoints)

text \<open>
  Claim C2, as stated: the overall AQI of a row is the maximum of the sub-indices of the
  pollutants present and non-missing. It fails on a row whose only pollutant has
  concentration 0: the sub-index 0 is not appended to \<open>aqi_values\<close>, the list is empty
  and the result is the default 100, while the maximum of the sub-indices is 0.
\<close>

theorem calculate_aqi_zero_counterexample:
  "present_sub_indices [''pm25'' \<mapsto> Some 0] = [0]
   \<and> calculate_aqi [''pm25'' \<mapsto> Some 0] = 100
   \<and> calculate_aqi [''pm25'' \<mapsto> Some 0] \<noteq> Max (set (present_sub_indices [''pm25'' \<mapsto> Some 0]))"
  by (simp add: calculate_aqi_def pollutants_def get_aqi_value_def map_of_breakpoints
      present_sub_indices_def)

text \<open>
  Claim C2, amended: the overall AQI of a row is the maximum of the sub-indices of the
  pollutants present and non-missing whenever one of them is positive, and the default
  100 otherwise; for the row \<open>{pm25: 35.4, pm10: 54, no2: 53}\<close> it is exactly 100.
\<close>

theorem calculate_aqi_max_of_sub_indices:
  "calculate_aqi r =
     (if \<exists>v \<in> set (present_sub_indices r). v > 0
      then Max (set (present_sub_indices r)) else 100)
   \<and> calculate_aqi [''pm25'' \<mapsto> Some 35.4, ''pm10'' \<mapsto> Some 54, ''no2'' \<mapsto> Some 53] = 100"
proof
  show "calculate_aqi r =
     (if \<exists>v \<in> set (present_sub_indices r). v > 0
      then Max (set (present_sub_indices r)) else 100)"
  proof (cases "\<exists>v \<in> set (present_sub_indices r). v > 0")
    case True
    then have "aqi_values r pollutants \<noteq> []"
      unfolding aqi_values_present by (simp add: filter_empty_conv)
    moreover have "set (aqi_values r pollutants) = {v \<in> set (present_sub_indices r). v > 0}"
      unfolding aqi_values_present by simp
    ultimately show ?thesis
      using True Max_positive_part[of "set (present_sub_indices r)"]
      by (simp add: calculate_aqi_def Let_def)
  next
    case False
    then have "aqi_values r pollutants = []"
      unfolding aqi_values_present by (simp add: filter_empty_conv)
    with False show ?thesis by (simp add: calculate_aqi_def Let_def)
  qed
  show "calculate_aqi [''pm25'' \<mapsto> Some 35.4, ''pm10'' \<mapsto> Some 54, ''no2'' \<mapsto> Some 53] = 100"
    by (simp add: calculate_aqi_def pollutants_def get_aqi_value_def map_of_breakpoints)
qed

theorem calculate_aqi_max_of_sub_indices_witness:
  "(\<exists>v \<in> set (present_sub_indices [''pm25'' \<mapsto> Some 40, ''no2'' \<mapsto> Some 0]). v > 0)
   \<and> calculate_aqi [''pm25'' \<mapsto> Some 40, ''no2'' \<mapsto> Some 0]
       = Max (set (present_sub_indices [''pm25'' \<mapsto> Some 40, ''no2'' \<mapsto> Some 0]))"
proof -
  have h: "\<exists>v \<in> set (present_sub_indices [''pm25'' \<mapsto> Some 40, ''no2'' \<mapsto> Some 0]). v > 0"
    by (simp add: present_sub_indices_def pollutants_def get_aqi_value_def map_of_breakpoints)
  show ?thesis
    using h calculate_aqi_max_of_sub_indices [of "[''pm25'' \<mapsto> Some 40, ''no2'' \<mapsto> Some 0]"]
    by simp
qed

text \<open>
  Claim C9. When none of pm25, pm10 and no2 is present and non-missing in the row (each
  is absent or NaN), the conversion returns the default 100, which is not zero, and it
  does not fail.
\<close>

theorem calculate_aqi_default:
  "(\<forall>p \<in> set pollutants. r p = None \<or> r p = Some None)
   \<Longrightarrow> calculate_aqi r = 100 \<and> calculate_aqi r \<noteq> 0"
  by (auto simp: calculate_aqi_def pollutants_def)

theorem calculate_aqi_default_witness:
  "calculate_aqi [''pm25'' \<mapsto> None, ''so2'' \<mapsto> Some 7] = 100
   \<and> calculate_aqi [''pm25'' \<mapsto> None, ''so2'' \<mapsto> Some 7] \<noteq> 0"
proof -
  have h: "\<forall>p \<in> set pollutants. [''pm25'' \<mapsto> None, ''so2'' \<mapsto> Some (7::real)] p = None
        \<or> [''pm25'' \<mapsto> None, ''so2'' \<mapsto> Some (7::real)] p = Some None"
    by (simp add: pollutants_def)
  show ?thesis by (rule calculate_aqi_default [OF h])
qed

text \<open>
  Claim C10. For each of pm25, pm10 and no2, a non-missing concentration that lies in no
  bracket of the pollutant's table gives the sub-index 500. That covers a concentration
  strictly between two consecutive brackets (PM2.5 between 12 and 12.1, PM10 between 54
  and 55) and a negative concentration, not only one above the top bracket.
\<close>

theorem get_aqi_value_outside_brackets:
  "(pollutant \<in> set pollutants \<and> \<not> in_some_bracket pollutant c
      \<longrightarrow> get_aqi_value (Some c) pollutant = 500)
   \<and> (12 < c \<and> c < 12.1 \<longrightarrow> get_aqi_value (Some c) ''pm25'' = 500)
   \<and> (54 < c \<and> c < 55 \<longrightarrow> get_aqi_value (Some c) ''pm10'' = 500)
   \<and> (pollutant \<in> set pollutants \<and> c < 0 \<longrightarrow> get_aqi_value (Some c) pollutant = 500)"
  by (auto simp: pollutants_def in_some_bracket_def get_aqi_value_def map_of_breakpoints)

theorem get_aqi_value_outside_brackets_witness:
  "''pm25'' \<in> set pollutants \<and> \<not> in_some_bracket ''pm25'' 12.05
   \<and> get_aqi_value (Some 12.05) ''pm25'' = 500
   \<and> get_aqi_value (Some 54.5) ''pm10'' = 500
   \<and> ''no2'' \<in> set pollutants \<and> get_aqi_value (Some (- 1)) ''no2'' = 500"
proof -
  have h1: "''pm25'' \<in> set pollutants" "''no2'' \<in> set pollutants"
    by (simp_all add: pollutants_def)
  have h2: "\<not> in_some_bracket ''pm25'' 12.05"
    by (simp add: in_some_bracket_def map_of_breakpoints)
  show ?thesis
    using h1 h2
      get_aqi_value_outside_brackets [of "''pm25''" "12.05"]
      get_aqi_value_outside_brackets [of "''pm10''" "54.5"]
      get_aqi_value_outside_brackets [of "''no2''" "- 1"]
    by simp
qed

section \<open>AQI derivation: monotone inside the brackets\<close>

lemma segment_bounds:
  fixes lo hi alo ahi c :: real
  assumes "lo < hi" "alo \<le> ahi" "lo \<le> c" "c \<le> hi"
  shows "alo \<le> ((ahi - alo) / (hi - lo)) * (c - lo) + alo"
    and "((ahi - alo) / (hi - lo)) * (c - lo) + alo \<le> ahi"
proof -
  have s: "0 \<le> (ahi - alo) / (hi - lo)" using assms by simp
  have "0 \<le> ((ahi - alo) / (hi - lo)) * (c - lo)" using s assms by simp
  then show "alo \<le> ((ahi - alo) / (hi - lo)) * (c - lo) + alo" by simp
  have "((ahi - alo) / (hi - lo)) * (c - lo) \<le> ((ahi - alo) / (hi - lo)) * (hi - lo)"
    using s assms by (intro mult_left_mono) simp_all
  also have "\<dots> = ahi - alo" using assms by simp
  finally show "((ahi - alo) / (hi - lo)) * (c - lo) + alo \<le> ahi" by simp
qed

lemma segment_mono:
  fixes lo hi alo ahi c c' :: real
  assumes "lo < hi" "alo \<le> ahi" "c \<le> c'"
  shows "((ahi - alo) / (hi - lo)) * (c - lo) + alo \<le> ((ahi - alo) / (hi - lo)) * (c' - lo) + alo"
proof -
  have "0 \<le> (ahi - alo) / (hi - lo)" using assms by simp
  then have "((ahi - alo) / (hi - lo)) * (c - lo) \<le> ((ahi - alo) / (hi - lo)) * (c' - lo)"
    using assms by (intro mult_left_mono) simp_all
  then show ?thesis by simp
qed

lemma scan_brackets_in:
  "lo \<le> c \<and> c \<le> hi
   \<Longrightarrow> scan_brackets ((lo, hi, alo, ahi) # rest) c = ((ahi - alo) / (hi - lo)) * (c - lo) + alo"
  by simp

lemma scan_brackets_out:
  "\<not> (lo \<le> c \<and> c \<le> hi) \<Longrightarrow> scan_brackets ((lo, hi, alo, ahi) # rest) c = scan_brackets rest c"
  by auto

declare scan_brackets.simps [simp del]

lemma inside_rest:
  "list_ex (inside c) ((lo, hi, alo, ahi) # rest) \<Longrightarrow> \<not> (lo \<le> c \<and> c \<le> hi)
   \<Longrightarrow> list_ex (inside c) rest"
  by auto

lemma ordered_first:
  "ordered_brackets bps \<Longrightarrow> list_ex (inside c) bps
   \<Longrightarrow> (case bps of [] \<Rightarrow> True
        | (lo, hi, alo, ahi) # rest \<Rightarrow> lo \<le> c \<and> alo \<le> scan_brackets bps c)"
proof (induction bps rule: ordered_brackets.induct)
  case 1
  then show ?case by simp
next
  case (2 lo hi alo ahi)
  then have "lo \<le> c \<and> c \<le> hi" "lo < hi" "alo \<le> ahi" by simp_all
  then show ?case using segment_bounds(1)[of lo hi alo ahi c] by (simp add: scan_brackets_in)
next
  case (3 lo hi alo ahi lo' hi' alo' ahi' rest)
  let ?rest = "(lo', hi', alo', ahi') # rest"
  have ord: "ordered_brackets ?rest" and b: "lo < hi" "alo \<le> ahi" "hi < lo'" "ahi \<le> alo'"
    using 3(2) by simp_all
  show ?case
  proof (cases "lo \<le> c \<and> c \<le> hi")
    case True
    have "alo \<le> scan_brackets ((lo, hi, alo, ahi) # ?rest) c"
      unfolding scan_brackets_in[OF True] using True b segment_bounds(1)[of lo hi alo ahi c]
      by blast
    then show ?thesis using True by simp
  next
    case False
    have r: "list_ex (inside c) ?rest" by (rule inside_rest[OF 3(3) False])
    have ih: "lo' \<le> c \<and> alo' \<le> scan_brackets ?rest c"
      using 3(1)[OF ord r] by simp
    have "lo \<le> c" using ih b by simp
    moreover have "alo \<le> scan_brackets ((lo, hi, alo, ahi) # ?rest) c"
      unfolding scan_brackets_out[OF False] using ih b by simp
    ultimately show ?thesis by simp
  qed
qed

lemma ordered_first_lo:
  "ordered_brackets ((lo, hi, alo, ahi) # rest) \<Longrightarrow> list_ex (inside c) ((lo, hi, alo, ahi) # rest)
   \<Longrightarrow> lo \<le> c"
  using ordered_first[of "(lo, hi, alo, ahi) # rest" c] by simp

lemma ordered_first_aqi:
  "ordered_brackets ((lo, hi, alo, ahi) # rest) \<Longrightarrow> list_ex (inside c) ((lo, hi, alo, ahi) # rest)
   \<Longrightarrow> alo \<le> scan_brackets ((lo, hi, alo, ahi) # rest) c"
  using ordered_first[of "(lo, hi, alo, ahi) # rest" c] by simp

lemma scan_brackets_mono:
  "ordered_brackets bps \<Longrightarrow> list_ex (inside c) bps \<Longrightarrow> list_ex (inside c') bps \<Longrightarrow> c \<le> c'
   \<Longrightarrow> scan_brackets bps c \<le> scan_brackets bps c'"
proof (induction bps rule: ordered_brackets.induct)
  case 1
  then show ?case by simp
next
  case (2 lo hi alo ahi)
  then have "lo < hi" "alo \<le> ahi" "lo \<le> c \<and> c \<le> hi" "lo \<le> c' \<and> c' \<le> hi" by simp_all
  then show ?case using segment_mono[of lo hi alo ahi c c'] 2(4) by (simp add: scan_brackets_in)
next
  case (3 lo hi alo ahi lo' hi' alo' ahi' rest)
  let ?rest = "(lo', hi', alo', ahi') # rest"
  let ?all = "(lo, hi, alo, ahi) # ?rest"
  have ord: "ordered_brackets ?rest" and b: "lo < hi" "alo \<le> ahi" "hi < lo'" "ahi \<le> alo'"
    using 3(2) by simp_all
  show ?case
  proof (cases "lo \<le> c \<and> c \<le> hi")
    case c_in: True
    show ?thesis
    proof (cases "lo \<le> c' \<and> c' \<le> hi")
      case True
      show ?thesis
        unfolding scan_brackets_in[OF c_in] scan_brackets_in[OF True]
        by (rule segment_mono[OF b(1,2) 3(5)])
    next
      case False
      have r': "list_ex (inside c') ?rest" by (rule inside_rest[OF 3(4) False])
      have "scan_brackets ?all c \<le> ahi"
        unfolding scan_brackets_in[OF c_in]
        using c_in b segment_bounds(2)[of lo hi alo ahi c] by blast
      also have "\<dots> \<le> alo'" by (rule b(4))
      also have "\<dots> \<le> scan_brackets ?rest c'" by (rule ordered_first_aqi[OF ord r'])
      finally show ?thesis unfolding scan_brackets_out[OF False] .
    qed
  next
    case c_out: False
    have r: "list_ex (inside c) ?rest" by (rule inside_rest[OF 3(3) c_out])
    have "lo' \<le> c" by (rule ordered_first_lo[OF ord r])
    then have c'_out: "\<not> (lo \<le> c' \<and> c' \<le> hi)" using b(3) 3(5) by simp
    have r': "list_ex (inside c') ?rest" by (rule inside_rest[OF 3(4) c'_out])
    show ?thesis
      unfolding scan_brackets_out[OF c_out] scan_brackets_out[OF c'_out]
      by (rule 3(1)[OF ord r r' 3(5)])
  qed
qed

declare scan_brackets.simps [simp]

text \<open>
  Restricted to the concentrations that lie in a bracket, the sub-index of each of pm25,
  pm10 and no2 is non-decreasing; the decrease shown for claim C1 needs a concentration
  in a gap.
\<close>

lemma get_aqi_value_mono_in_brackets:
  assumes "pollutant \<in> set pollutants"
    and "in_some_bracket pollutant c" and "in_some_bracket pollutant c'" and "c \<le> c'"
  shows "get_aqi_value (Some c) pollutant \<le> get_aqi_value (Some c') pollutant"
proof -
  obtain bps where bps: "map_of breakpoints pollutant = Some bps" and ord: "ordered_brackets bps"
    using assms(1)
    by (auto simp: pollutants_def map_of_breakpoints)
  have "scan_brackets bps c \<le> scan_brackets bps c'"
    using assms(2,3) bps by (intro scan_brackets_mono[OF ord _ _ assms(4)])
      (simp_all add: in_some_bracket_def)
  then show ?thesis using bps by (simp add: get_aqi_value_def)
qed

section \<open>Health-risk scoring: properties\<close>

lemma known_cities_simp: "known_cities = [''Delhi'', ''Mumbai'', ''Kolkata'', ''Chennai'', ''Bangalore'', ''Hyderabad'']"
  by (simp add: known_cities_def city_demographics_def)

lemma known_city_cases:
  "city \<in> set known_cities \<Longrightarrow>
   city = ''Delhi'' \<or> city = ''Mumbai'' \<or> city = ''Kolkata'' \<or> city = ''Chennai''
   \<or> city = ''Bangalore'' \<or> city = ''Hyderabad''"
  by (simp add: known_cities_simp)

lemma score_known:
  assumes "city \<in> set known_cities"
  shows "calculate_health_risk_score a city = Inr (min (base_risk a * risk_factor city) 1)"
  using known_city_cases[OF assms]
  apply (elim disjE)
  apply (simp_all add: calculate_health_risk_score_def city_demographics_def vulnerability_factors_def risk_factor_def group_share_def demographic_value_def Let_def)
  done

lemma risk_factor_bounds:
  assumes "city \<in> set known_cities"
  shows "1 < risk_factor city \<and> risk_factor city < 10"
  using known_city_cases[OF assms]
  apply (elim disjE)
  apply (simp_all add: city_demographics_def vulnerability_factors_def risk_factor_def group_share_def demographic_value_def Let_def)
  done

lemma weighted_known:
  assumes "city \<in> set known_cities"
  shows "weighted_risk a city * (1 + demographic_value city ''low_income_percentage'' / 100 * 0.3) = base_risk a * risk_factor city"
  using known_city_cases[OF assms]
  apply (elim disjE)
  apply (simp_all add: weighted_risk_def city_demographics_def vulnerability_factors_def risk_factor_def group_share_def demographic_value_def Let_def)
  done

lemma score_unknown:
  assumes "city \<notin> set known_cities"
  shows "calculate_health_risk_score a city = calculate_health_risk_score a ''Delhi''"
proof -
  have "map_of city_demographics city = None"
    using assms by (simp add: known_cities_def map_of_eq_None_iff)
  moreover have "map_of city_demographics ''Delhi'' \<noteq> None" by (simp add: city_demographics_def)
  ultimately show ?thesis by (simp add: calculate_health_risk_score_def)
qed


lemma base_risk_mono: "a \<le> b \<Longrightarrow> base_risk a \<le> base_risk b"
  by (simp add: base_risk_def)

lemma base_risk_lowest: "0.1 \<le> base_risk a"
  by (simp add: base_risk_def)

lemma score_shape:
  "\<exists>K. 1 < K \<and> K < 10 \<and> (\<forall>a. calculate_health_risk_score a city = Inr (min (base_risk a * K) 1))"
proof (cases "city \<in> set known_cities")
  case True
  then show ?thesis using score_known[OF True] risk_factor_bounds[OF True] by blast
next
  case False
  have D: "''Delhi'' \<in> set known_cities" by (simp add: known_cities_simp)
  show ?thesis using score_unknown[OF False] score_known[OF D] risk_factor_bounds[OF D] by auto
qed

lemma score_effective_city:
  "calculate_health_risk_score a city =
     Inr (min (base_risk a * risk_factor (if city \<in> set known_cities then city else ''Delhi'')) 1)"
proof (cases "city \<in> set known_cities")
  case True
  then show ?thesis using score_known[OF True] by simp
next
  case False
  have D: "''Delhi'' \<in> set known_cities" by (simp add: known_cities_simp)
  show ?thesis using False score_unknown[OF False, of a] score_known[OF D, of a] by simp
qed

lemma risk_factor_effective_bounds:
  "1 < risk_factor (if city \<in> set known_cities then city else ''Delhi'')
   \<and> risk_factor (if city \<in> set known_cities then city else ''Delhi'') < 10"
proof (cases "city \<in> set known_cities")
  case True
  then show ?thesis using risk_factor_bounds[OF True] by simp
next
  case False
  have D: "''Delhi'' \<in> set known_cities" by (simp add: known_cities_simp)
  show ?thesis using False risk_factor_bounds[OF D] by simp
qed

lemma simple_mean_risk_eq: "simple_mean_risk a = base_risk a * (26 / 15)"
  by (simp add: simple_mean_risk_def vulnerability_factors_def)

lemma weighted_risk_factor:
  assumes "city \<in> set known_cities"
  shows "weighted_risk a city = base_risk a * mean_multiplier city"
  using known_city_cases[OF assms]
  apply (elim disjE)
  apply (simp_all add: weighted_risk_def city_demographics_def vulnerability_factors_def mean_multiplier_def group_share_def demographic_value_def)
  done

lemma mean_multiplier_not_simple:
  assumes "city \<in> set known_cities"
  shows "mean_multiplier city \<noteq> 26 / 15"
  using known_city_cases[OF assms]
  apply (elim disjE)
  apply (simp_all add: city_demographics_def vulnerability_factors_def mean_multiplier_def group_share_def demographic_value_def)
  done

lemma weighted_not_simple_mean:
  assumes "city \<in> set known_cities"
  shows "weighted_risk a city \<noteq> simple_mean_risk a"
proof -
  have pos: "base_risk a \<noteq> 0" using base_risk_lowest[of a] by auto
  show ?thesis
    using pos mean_multiplier_not_simple[OF assms]
    by (simp add: weighted_risk_factor[OF assms] simple_mean_risk_eq)
qed

text \<open>
  Claim C3. For every AQI value and every known city, the score returned by
  \<open>calculate_health_risk_score\<close> is
  \<open>min (weighted_risk \<times> (1 + low_income_percentage / 100 \<times> 0.3)) 1.0\<close>, where
  \<open>weighted_risk\<close> is the population-share-weighted average
  \<open>(\<Sum> base_risk \<times> multiplier \<times> group_share) / (\<Sum> group_share)\<close> over the six vulnerable
  groups; that average differs from the simple mean of \<open>base_risk \<times> multiplier\<close>, and
  the result is capped at 1.0.
\<close>

theorem health_risk_score_weighted:
  assumes "city \<in> set known_cities"
  shows "calculate_health_risk_score aqi_value city =
           Inr (min (weighted_risk aqi_value city
                      * (1 + demographic_value city ''low_income_percentage'' / 100 * 0.3)) 1.0)
         \<and> length vulnerability_factors = 6
         \<and> weighted_risk aqi_value city \<noteq> simple_mean_risk aqi_value"
  using score_known[OF assms, of aqi_value] weighted_known[OF assms, of aqi_value]
    weighted_not_simple_mean[OF assms, of aqi_value]
  by (simp add: vulnerability_factors_def)

text \<open>
  Claim C7. For every AQI value and every city name (an unknown one falls back to Delhi),
  the returned score is \<open>min (base_risk aqi \<times> risk_factor city) 1.0\<close>, where the city's
  factor lies strictly between 1 and 10. The base risk at AQI 0 is the lowest band value
  0.1, and the score at AQI 0 is computed from it: it is \<open>0.1 \<times> risk_factor city\<close>. The
  score at AQI 400 is 1.0, so the score at AQI 0 is strictly less than the score at
  AQI 400, and the score is non-decreasing in the AQI.
\<close>

theorem health_risk_score_monotone:
  "calculate_health_risk_score a city =
     Inr (min (base_risk a * risk_factor (if city \<in> set known_cities then city else ''Delhi'')) 1.0)
   \<and> base_risk 0 = 0.1 \<and> base_risk 0 \<le> base_risk x
   \<and> calculate_health_risk_score 0 city =
       Inr (0.1 * risk_factor (if city \<in> set known_cities then city else ''Delhi''))
   \<and> calculate_health_risk_score 400 city = Inr 1.0
   \<and> 1 < risk_factor (if city \<in> set known_cities then city else ''Delhi'')
   \<and> risk_factor (if city \<in> set known_cities then city else ''Delhi'') < 10
   \<and> (\<exists>r0 r400. calculate_health_risk_score 0 city = Inr r0
         \<and> calculate_health_risk_score 400 city = Inr r400 \<and> r0 < r400)
   \<and> (a \<le> b \<longrightarrow> (\<exists>ra rb. calculate_health_risk_score a city = Inr ra
         \<and> calculate_health_risk_score b city = Inr rb \<and> ra \<le> rb))"
proof -
  define K where "K = risk_factor (if city \<in> set known_cities then city else ''Delhi'')"
  have K: "1 < K" "K < 10"
    using risk_factor_effective_bounds[of city] by (simp_all add: K_def)
  have sc: "calculate_health_risk_score v city = Inr (min (base_risk v * K) 1)" for v
    using score_effective_city[of v city] by (simp add: K_def)
  have b0: "base_risk 0 = 0.1" and b400: "base_risk 400 = 1" by (simp_all add: base_risk_def)
  have s0: "calculate_health_risk_score 0 city = Inr (0.1 * K)"
    using K by (simp add: sc b0 min_def)
  have s400: "calculate_health_risk_score 400 city = Inr 1"
    using K by (simp add: sc b400 min_def)
  have lt: "0.1 * K < 1" using K by simp
  have le: "min (base_risk a * K) 1 \<le> min (base_risk b * K) 1" if "a \<le> b"
  proof -
    have "base_risk a * K \<le> base_risk b * K"
      using base_risk_mono[OF that] K by (simp add: mult_right_mono)
    then show ?thesis by (simp add: min_def)
  qed
  show ?thesis
    unfolding K_def[symmetric]
  proof (intro conjI impI)
    show "calculate_health_risk_score a city = Inr (min (base_risk a * K) 1.0)"
      using sc[of a] by simp
    show "base_risk 0 = 0.1" by (rule b0)
    show "base_risk 0 \<le> base_risk x" using base_risk_lowest[of x] by (simp add: b0)
    show "calculate_health_risk_score 0 city = Inr (0.1 * K)" by (rule s0)
    show "calculate_health_risk_score 400 city = Inr 1.0" using s400 by simp
    show "1 < K" by (rule K(1))
    show "K < 10" by (rule K(2))
    show "\<exists>r0 r400. calculate_health_risk_score 0 city = Inr r0
         \<and> calculate_health_risk_score 400 city = Inr r400 \<and> r0 < r400"
      using s0 s400 lt by blast
    show "\<exists>ra rb. calculate_health_risk_score a city = Inr ra
         \<and> calculate_health_risk_score b city = Inr rb \<and> ra \<le> rb" if "a \<le> b"
      using le[OF that] sc by blast
  qed
qed

theorem health_risk_score_weighted_witness:
  "calculate_health_risk_score 60 ''Mumbai'' =
     Inr (min (weighted_risk 60 ''Mumbai''
                * (1 + demographic_value ''Mumbai'' ''low_income_percentage'' / 100 * 0.3)) 1.0)
   \<and> length vulnerability_factors = 6
   \<and> weighted_risk 60 ''Mumbai'' \<noteq> simple_mean_risk 60"
proof -
  have h: "''Mumbai'' \<in> set known_cities" by (simp add: known_cities_simp)
  show ?thesis by (rule health_risk_score_weighted [OF h])
qed

theorem health_risk_score_monotone_witness:
  "calculate_health_risk_score 80 ''Chennai'' = Inr (min (0.3 * risk_factor ''Chennai'') 1.0)
   \<and> calculate_health_risk_score 0 ''Chennai'' = Inr (0.1 * risk_factor ''Chennai'')
   \<and> calculate_health_risk_score 400 ''Chennai'' = Inr 1.0
   \<and> (\<exists>ra rb. calculate_health_risk_score 80 ''Chennai'' = Inr ra
         \<and> calculate_health_risk_score 160 ''Chennai'' = Inr rb \<and> ra \<le> rb)"
proof -
  have h: "(80::real) \<le> 160" by simp
  have c: "(if ''Chennai'' \<in> set known_cities then ''Chennai'' else ''Delhi'') = ''Chennai''"
    by (simp add: known_cities_simp)
  have b: "base_risk 80 = 0.3" by (simp add: base_risk_def)
  note t = health_risk_score_monotone [of 80 "''Chennai''" 0 160, unfolded c b]
  have t1: "calculate_health_risk_score 80 ''Chennai'' = Inr (min (0.3 * risk_factor ''Chennai'') 1.0)"
    using t by blast
  have t2: "calculate_health_risk_score 0 ''Chennai'' = Inr (0.1 * risk_factor ''Chennai'')"
    using t by blast
  have t3: "calculate_health_risk_score 400 ''Chennai'' = Inr 1.0"
    using t by blast
  have t4: "\<exists>ra rb. calculate_health_risk_score 80 ''Chennai'' = Inr ra
         \<and> calculate_health_risk_score 160 ''Chennai'' = Inr rb \<and> ra \<le> rb"
    using t h by blast
  show ?thesis using t1 t2 t3 t4 by blast
qed

section \<open>Forecasting pipeline: properties\<close>

subsection \<open>Lag and rolling columns\<close>

lemma shift_nth:
  "i < length xs \<Longrightarrow> shift period xs ! i = (if i < period then None else xs ! (i - period))"
  by (auto simp: shift_def nth_append min_def)

lemma length_shift [simp]: "length (shift period xs) = length xs"
  by (auto simp: shift_def min_def)

lemma length_rolling [simp]: "length (rolling stat w xs) = length xs"
  by (simp add: rolling_def)

lemma rolling_nth:
  "i < length xs \<Longrightarrow> rolling stat w xs ! i =
     (if Suc i < w then None
      else if None \<in> set (window_at w i xs) then None
      else Some (stat (map the (window_at w i xs))))"
  by (simp add: rolling_def Let_def)

lemma window_at_take:
  "w \<le> Suc i \<Longrightarrow> window_at w i xs = drop (Suc i - w) (take (Suc i) xs)"
  by (simp add: window_at_def take_drop)

lemma window_at_cong:
  assumes "take (Suc i) xs = take (Suc i) ys" "\<not> Suc i < w"
  shows "window_at w i xs = window_at w i ys"
  using assms by (simp add: window_at_take)

lemma nth_before_cong:
  assumes "take (Suc i) xs = take (Suc i) ys" "j \<le> i"
  shows "xs ! j = ys ! j"
proof -
  have "xs ! j = take (Suc i) xs ! j" using assms(2) by simp
  also have "\<dots> = take (Suc i) ys ! j" by (simp only: assms(1))
  also have "\<dots> = ys ! j" using assms(2) by simp
  finally show ?thesis .
qed

text \<open>
  On columns: two columns of the same length that agree on their first \<open>i + 1\<close> cells
  have the same shifted value, rolling mean and rolling standard deviation at row \<open>i\<close>.
\<close>

lemma no_look_ahead_columns:
  assumes "length xs = length ys" and "i < length xs"
    and "take (Suc i) xs = take (Suc i) ys"
  shows "shift period xs ! i = shift period ys ! i
         \<and> rolling_mean w xs ! i = rolling_mean w ys ! i
         \<and> rolling_std w xs ! i = rolling_std w ys ! i"
proof -
  have i': "i < length ys" using assms by simp
  have s: "shift period xs ! i = shift period ys ! i"
    using assms i' nth_before_cong[OF assms(3), of "i - period"] by (simp add: shift_nth)
  have r: "rolling stat w xs ! i = rolling stat w ys ! i" for stat
    using assms i' window_at_cong[OF assms(3), of w] by (simp add: rolling_nth)
  show ?thesis using s r assms(1) by (simp add: rolling_mean_def rolling_std_def)
qed

subsection \<open>Autoregressive training\<close>

lemma sort_values_three_hours:
  "sort_values three_hours =
     \<lparr>timestamp = [0, 3600, 7200], columns = [(''aqi'', [Some 100, Some 120, Some 140])]\<rparr>"
  by (simp add: sort_values_def three_hours_def len_def take_rows_def)

lemma hourly_target_three_hours:
  "hourly_target three_hours ''aqi'' = Inr [Some 100, Some 120, Some 140]"
  unfolding hourly_target_def sort_values_three_hours
  by (simp add: column_def resample_hourly_mean_def hour_bin_def bin_mean_def mean_def
      ffill_def upto.simps)

text \<open>
  Claim C5. When the hourly-resampled target has fewer than 48 points, \<open>train_arima\<close>
  fails before anything is fitted: whatever the fitting routine is, the result is the
  exception and the predictor state is the one it started from. For a table that is not
  empty the message is the insufficient-data one; an empty table (no points at all) is
  refused one step earlier, with the message that there is no training data.
\<close>

theorem train_arima_insufficient_data:
  "(df_empty df \<longrightarrow>
      train_arima fit p df target_column =
        (Inl (Exception ''Error training ARIMA model: No training data available''), p))
   \<and> (\<not> df_empty df \<and> hourly_target df target_column = Inr ts_data \<and> length ts_data < 48 \<longrightarrow>
      train_arima fit p df target_column =
        (Inl (Exception
           ''Error training ARIMA model: Insufficient data for ARIMA training (need at least 48 hours)''),
         p))"
  by (simp add: train_arima_def arima_training_error_def)

theorem train_arima_insufficient_data_witness:
  "train_arima flat_fit untrained three_hours ''aqi'' =
     (Inl (Exception
        ''Error training ARIMA model: Insufficient data for ARIMA training (need at least 48 hours)''),
      untrained)
   \<and> train_arima flat_fit untrained no_frame ''aqi'' =
     (Inl (Exception ''Error training ARIMA model: No training data available''), untrained)"
proof -
  have h1: "\<not> df_empty three_hours" by (simp add: df_empty_def three_hours_def)
  have h2: "length [Some 100, Some 120, Some (140::real)] < 48" by simp
  have h3: "df_empty no_frame" by (simp add: df_empty_def no_frame_def)
  show ?thesis
    using h1 h2 h3 hourly_target_three_hours
      train_arima_insufficient_data
        [of three_hours flat_fit untrained "''aqi''" "[Some 100, Some 120, Some 140]"]
      train_arima_insufficient_data [of no_frame flat_fit untrained "''aqi''"]
    by simp
qed

subsection \<open>Tree-ensemble prediction\<close>

lemmas frame_defs =
  prepare_features_def df_empty_def engineered_def sort_values_def len_def take_rows_def
  add_time_features_def set_column_def add_lag_features_def lag_periods_def feature_cols_def
  assign_lag_def column_def add_rolling_features_def window_sizes_def assign_rolling_def
  add_weather_features_def cellwise_def cellwise2_def dropna_def row_complete_def Let_def

lemma prepare_features_one_row:
  "timestamp (prepare_features calm one_row) = [0]
   \<and> column (prepare_features calm one_row) ''so2'' = Some [Some 5]"
  by (simp add: frame_defs calm_def one_row_def)

lemma predict_low_forest:
  "predict_next_day_rf calm low_forest one_row =
     Inr \<lparr>predicted_aqi = 10, feature_importance = [(''so2'', 1)],
          prediction_interval = (0, 35)\<rparr>"
  using prepare_features_one_row
  by (simp add: predict_next_day_rf_def low_forest_def df_empty_def sorted_importance_def
      Let_def one_row_def)

lemma predict_high_forest:
  "predict_next_day_rf calm high_forest one_row =
     Inr \<lparr>predicted_aqi = 80, feature_importance = [(''so2'', 1)],
          prediction_interval = (55, 105)\<rparr>"
  using prepare_features_one_row
  by (simp add: predict_next_day_rf_def high_forest_def df_empty_def sorted_importance_def
      Let_def one_row_def)

text \<open>
  Claim C6, as stated: the prediction interval is the symmetric band of 25 units on
  each side of the point prediction. It fails for a forest that predicts 10: the point
  prediction is 10 and the interval is \<open>[0, 35]\<close>, not \<open>[-15, 35]\<close>, because the lower
  bound is clamped at 0.
\<close>

theorem predict_next_day_rf_interval_counterexample:
  "predict_next_day_rf calm low_forest one_row =
     Inr \<lparr>predicted_aqi = 10, feature_importance = [(''so2'', 1)],
          prediction_interval = (0, 35)\<rparr>
   \<and> (0 :: real, 35 :: real) \<noteq> (10 - 25, 10 + 25)"
  using predict_low_forest by simp

text \<open>
  Claim C6, amended: whenever \<open>predict_next_day_rf\<close> returns, the point prediction is
  the forest's prediction clamped to at least 0, and the interval is
  \<open>[max 0 (prediction - 25), prediction + 25]\<close> around the forest's prediction; it is the
  symmetric band of 25 units around the point prediction when the forest's prediction is
  at least 25.
\<close>

theorem predict_next_day_rf_interval:
  assumes "predict_next_day_rf e p current_data = Inr out"
  shows "0 \<le> predicted_aqi out
         \<and> (\<exists>model cols latest_data prediction.
              rf_model p = Some model \<and> feature_columns p = Some cols
              \<and> latest_row (prepare_features e current_data) cols = Inr latest_data
              \<and> prediction = predict model (scaler p latest_data)
              \<and> predicted_aqi out = max 0 prediction
              \<and> prediction_interval out = (max 0 (prediction - 25), prediction + 25)
              \<and> (25 \<le> prediction \<longrightarrow>
                   prediction_interval out = (predicted_aqi out - 25, predicted_aqi out + 25)))"
  using assms
  by (auto simp: predict_next_day_rf_def Let_def
      split: bool.splits option.splits if_splits sum.splits)

theorem predict_next_day_rf_interval_witness:
  "0 \<le> predicted_aqi \<lparr>predicted_aqi = 80, feature_importance = [(''so2'', 1)],
                        prediction_interval = (55, 105)\<rparr>
   \<and> (\<exists>model cols latest_data prediction.
        rf_model high_forest = Some model \<and> feature_columns high_forest = Some cols
        \<and> latest_row (prepare_features calm one_row) cols = Inr latest_data
        \<and> prediction = predict model (scaler high_forest latest_data)
        \<and> predicted_aqi \<lparr>predicted_aqi = 80, feature_importance = [(''so2'', 1)],
                          prediction_interval = (55, 105)\<rparr> = max 0 prediction
        \<and> prediction_interval \<lparr>predicted_aqi = 80, feature_importance = [(''so2'', 1)],
                                prediction_interval = (55, 105)\<rparr>
            = (max 0 (prediction - 25), prediction + 25)
        \<and> (25 \<le> prediction \<longrightarrow>
             prediction_interval \<lparr>predicted_aqi = 80, feature_importance = [(''so2'', 1)],
                                  prediction_interval = (55, 105)\<rparr>
               = (predicted_aqi \<lparr>predicted_aqi = 80, feature_importance = [(''so2'', 1)],
                                 prediction_interval = (55, 105)\<rparr> - 25,
                  predicted_aqi \<lparr>predicted_aqi = 80, feature_importance = [(''so2'', 1)],
                                 prediction_interval = (55, 105)\<rparr> + 25)))"
  by (rule predict_next_day_rf_interval [OF predict_high_forest])

subsection \<open>Feature engineering\<close>

lemma column_set_column:
  "column (set_column name vals df) n = (if n = name then Some vals else column df n)"
  by (simp add: column_def set_column_def AList.update_conv')

lemma timestamp_set_column [simp]: "timestamp (set_column name vals df) = timestamp df"
  by (simp add: set_column_def)

lemma len_set_column [simp]: "len (set_column name vals df) = len df"
  by (simp add: len_def)

lemma distinct_set_column:
  "distinct (map fst (columns df)) \<Longrightarrow> distinct (map fst (columns (set_column name vals df)))"
  by (simp add: set_column_def AList.distinct_update)

lemma feature_col_length: "col \<in> set feature_cols \<Longrightarrow> length col \<le> 4"
  by (auto simp: feature_cols_def)

lemma ready_set_column:
  assumes "ready N df" and "length vals = N"
    and "\<And>i. 24 \<le> i \<Longrightarrow> i < N \<Longrightarrow> vals ! i \<noteq> None"
    and "name \<notin> set feature_cols"
  shows "ready N (set_column name vals df)"
  using assms unfolding ready_def
  by (auto simp: column_set_column distinct_set_column)

lemma window_no_None: "None \<notin> set c \<Longrightarrow> None \<notin> set (window_at w i c)"
  unfolding window_at_def by (meson in_set_dropD in_set_takeD)

lemma ready_assign_lag:
  assumes "ready N df" and "col \<in> set feature_cols" and "period \<le> 24"
  shows "ready N (assign_lag period col df)"
proof (cases "column df col")
  case None
  then show ?thesis using assms(1) by (simp add: assign_lag_def)
next
  case (Some c)
  have len: "length c = N" and full: "None \<notin> set c"
    using assms(1,2) Some unfolding ready_def by blast+
  have "shift period c ! i \<noteq> None" if "24 \<le> i" "i < N" for i
  proof -
    have "c ! (i - period) \<in> set c" using that len by simp
    with full have "c ! (i - period) \<noteq> None" by metis
    moreover have "\<not> i < period" using that assms(3) by simp
    ultimately show ?thesis using that len by (simp add: shift_nth)
  qed
  moreover have "col @ ''_lag_'' @ str_nat period \<notin> set feature_cols"
    using feature_col_length[of "col @ ''_lag_'' @ str_nat period"] by auto
  ultimately have "ready N (set_column (col @ ''_lag_'' @ str_nat period) (shift period c) df)"
    using len by (intro ready_set_column[OF assms(1)]) simp_all
  then show ?thesis using Some by (simp add: assign_lag_def)
qed

lemma ready_assign_rolling:
  assumes "ready N df" and "col \<in> set feature_cols" and "2 \<le> w" and "w \<le> 24"
  shows "ready N (assign_rolling w col df)"
proof (cases "column df col")
  case None
  then show ?thesis using assms(1) by (simp add: assign_rolling_def)
next
  case (Some c)
  have len: "length c = N" and full: "None \<notin> set c"
    using assms(1,2) Some unfolding ready_def by blast+
  have defined: "rolling stat w c ! i \<noteq> None" if "24 \<le> i" "i < N" for i stat
    using that len assms(4) window_no_None[OF full] by (simp add: rolling_nth)
  have n1: "col @ ''_rolling_mean_'' @ str_nat w \<notin> set feature_cols"
    using feature_col_length[of "col @ ''_rolling_mean_'' @ str_nat w"] by auto
  have n2: "col @ ''_rolling_std_'' @ str_nat w \<notin> set feature_cols"
    using feature_col_length[of "col @ ''_rolling_std_'' @ str_nat w"] by auto
  let ?d1 = "set_column (col @ ''_rolling_mean_'' @ str_nat w) (rolling_mean w c) df"
  have r1: "ready N ?d1"
  proof (rule ready_set_column[OF assms(1) _ _ n1])
    show "length (rolling_mean w c) = N" using len by (simp add: rolling_mean_def)
    show "rolling_mean w c ! i \<noteq> None" if "24 \<le> i" "i < N" for i
      using defined[OF that] by (simp add: rolling_mean_def)
  qed
  have c1: "column ?d1 col = Some c"
    using Some by (simp add: column_set_column)
  have r2: "ready N (set_column (col @ ''_rolling_std_'' @ str_nat w) (rolling_std w c) ?d1)"
  proof (rule ready_set_column[OF r1 _ _ n2])
    show "length (rolling_std w c) = N" using len assms(3) by (simp add: rolling_std_def)
    show "rolling_std w c ! i \<noteq> None" if "24 \<le> i" "i < N" for i
      using defined[OF that] assms(3) by (simp add: rolling_std_def)
  qed
  show ?thesis using Some c1 r2 by (simp add: assign_rolling_def Let_def)
qed

lemma fold_invariant:
  "(\<And>x s. x \<in> set xs \<Longrightarrow> P s \<Longrightarrow> P (f x s)) \<Longrightarrow> P s \<Longrightarrow> P (fold f xs s)"
  by (induction xs arbitrary: s) simp_all

lemma ready_add_lag_features: "ready N df \<Longrightarrow> ready N (add_lag_features df)"
  unfolding add_lag_features_def
  by (intro fold_invariant[where P = "ready N"] ready_assign_lag)
     (auto simp: lag_periods_def)

lemma ready_add_rolling_features: "ready N df \<Longrightarrow> ready N (add_rolling_features df)"
  unfolding add_rolling_features_def
  by (intro fold_invariant[where P = "ready N"] ready_assign_rolling)
     (auto simp: window_sizes_def)

lemma ready_add_time_features:
  assumes "ready N df"
  shows "ready N (add_time_features e df)"
proof -
  have len: "length (timestamp df) = N" using assms by (simp add: ready_def len_def)
  have names: "''hour'' \<notin> set feature_cols" "''day_of_week'' \<notin> set feature_cols"
    "''month'' \<notin> set feature_cols" "''day_of_year'' \<notin> set feature_cols"
    by (simp_all add: feature_cols_def)
  have step: "ready N (set_column name (map (\<lambda>t. Some (real (f t))) (timestamp df)) d)"
    if "ready N d" "name \<notin> set feature_cols" for name f d
    using that len by (intro ready_set_column) simp_all
  show ?thesis
    unfolding add_time_features_def Let_def
    by (intro step assms names)
qed

lemma length_cellwise [simp]: "length (cellwise f xs) = length xs"
  by (simp add: cellwise_def)

lemma cellwise_nth: "i < length xs \<Longrightarrow> xs ! i \<noteq> None \<Longrightarrow> cellwise f xs ! i \<noteq> None"
  by (simp add: cellwise_def)

lemma length_cellwise2 [simp]: "length (cellwise2 f xs ys) = min (length xs) (length ys)"
  by (simp add: cellwise2_def)

lemma cellwise2_nth:
  "i < length xs \<Longrightarrow> i < length ys \<Longrightarrow> xs ! i \<noteq> None \<Longrightarrow> ys ! i \<noteq> None
   \<Longrightarrow> cellwise2 f xs ys ! i \<noteq> None"
  by (auto simp: cellwise2_def)

lemma ready_add_weather_features:
  assumes "ready N df"
  shows "ready N (add_weather_features e df)"
proof (cases "column df ''hour''")
  case None
  then show ?thesis using assms by (simp add: add_weather_features_def)
next
  case hours: (Some hs)
  show ?thesis
  proof (cases "column df ''day_of_year''")
    case None
    then show ?thesis using assms hours by (simp add: add_weather_features_def)
  next
    case days: (Some ds)
    have h: "length hs = N" "\<And>i. 24 \<le> i \<Longrightarrow> i < N \<Longrightarrow> hs ! i \<noteq> None"
      using assms hours unfolding ready_def by blast+
    have d: "length ds = N" "\<And>i. 24 \<le> i \<Longrightarrow> i < N \<Longrightarrow> ds ! i \<noteq> None"
      using assms days unfolding ready_def by blast+
    have names: "''temp_estimate'' \<notin> set feature_cols"
      "''humidity_estimate'' \<notin> set feature_cols" "''wind_speed_estimate'' \<notin> set feature_cols"
      by (simp_all add: feature_cols_def)
    let ?d1 = "set_column ''temp_estimate''
                 (cellwise2 (\<lambda>h d. 25 + 10 * sin (2 * pi * h / 24) + 5 * sin (2 * pi * d / 365))
                    hs ds) df"
    let ?d2 = "set_column ''humidity_estimate''
                 (cellwise (\<lambda>h. 60 + 20 * sin (2 * pi * (h + 6) / 24)) hs) ?d1"
    have r1: "ready N ?d1"
      using h d by (intro ready_set_column[OF assms _ _ names(1)]) (simp_all add: cellwise2_nth)
    have r2: "ready N ?d2"
      using h by (intro ready_set_column[OF r1 _ _ names(2)]) (simp_all add: cellwise_nth)
    have l2: "len ?d2 = N" using assms by (simp add: ready_def)
    have r3: "ready N (set_column ''wind_speed_estimate''
                 (map (\<lambda>i. Some (5 + 3 * random e i)) [0..<len ?d2]) ?d2)"
      unfolding l2 by (intro ready_set_column[OF r2 _ _ names(3)]) simp_all
    show ?thesis using hours days r3 by (simp add: add_weather_features_def Let_def)
  qed
qed

lemma map_of_map_values:
  "map_of (map (\<lambda>(k, v). (k, f v)) xs) k = map_option f (map_of xs k)"
  by (induction xs) auto

lemma column_take_rows:
  "column (take_rows idx df) name = map_option (\<lambda>c. map (\<lambda>i. c ! i) idx) (column df name)"
  by (simp add: column_def take_rows_def map_of_map_values)

lemma names_take_rows [simp]: "map fst (columns (take_rows idx df)) = map fst (columns df)"
  by (simp add: take_rows_def split_def comp_def)

lemma len_take_rows [simp]: "len (take_rows idx df) = length idx"
  by (simp add: len_def take_rows_def)

lemma column_of_well_formed:
  assumes "well_formed df" "column df name = Some c"
  shows "length c = len df"
proof -
  have "(name, c) \<in> set (columns df)" using assms(2) by (simp add: column_def map_of_SomeD)
  then show ?thesis using assms(1) by (auto simp: well_formed_def list_all_iff len_def)
qed

lemma ready_sort_values:
  assumes "well_formed df" and "list_all (\<lambda>(name, c). None \<notin> set c) (columns df)"
  shows "ready (len df) (sort_values df)"
proof -
  let ?idx = "sort_key (\<lambda>i. timestamp df ! i) [0..<len df]"
  have idx: "\<And>j. j \<in> set ?idx \<Longrightarrow> j < len df" by simp
  have full: "None \<notin> set (map (\<lambda>i. c ! i) ?idx)" if "column df name = Some c" for name c
  proof -
    have m: "(name, c) \<in> set (columns df)" using that by (simp add: column_def map_of_SomeD)
    then have "None \<notin> set c" using assms(2) by (auto simp: list_all_iff)
    moreover have "length c = len df" using column_of_well_formed[OF assms(1) that] .
    ultimately show ?thesis using idx by (auto simp: in_set_conv_nth)
  qed
  have defined: "map (\<lambda>i. c ! i) ?idx ! k \<noteq> None" if "column df name = Some c" "k < len df" for name c k
  proof -
    have "map (\<lambda>i. c ! i) ?idx ! k \<in> set (map (\<lambda>i. c ! i) ?idx)"
      using that(2) by (intro nth_mem) simp
    then show ?thesis using full[OF that(1)] by metis
  qed
  show ?thesis
    unfolding ready_def sort_values_def
    using assms(1) full defined
    by (auto simp: column_take_rows well_formed_def)
qed

lemma ready_engineered:
  assumes "well_formed df" and "list_all (\<lambda>(name, c). None \<notin> set c) (columns df)"
  shows "ready (len df) (engineered e df)"
  unfolding engineered_def
  by (intro ready_add_weather_features ready_add_rolling_features ready_add_lag_features
      ready_add_time_features ready_sort_values assms)

lemma str_nat_values:
  "str_nat 1 = ''1''" "str_nat 3 = ''3''" "str_nat 6 = ''6''" "str_nat 12 = ''12''"
  "str_nat 24 = ''24''"
  by (simp_all add: str_nat.simps)

lemma column_assign_lag_other:
  "n \<noteq> col @ ''_lag_'' @ str_nat period \<Longrightarrow> column (assign_lag period col df) n = column df n"
  by (simp add: assign_lag_def column_set_column split: option.splits)

lemma column_assign_lag_same:
  "n = col @ ''_lag_'' @ str_nat period \<Longrightarrow> column df col = Some c
   \<Longrightarrow> column (assign_lag period col df) n = Some (shift period c)"
  by (simp add: assign_lag_def column_set_column)

lemma column_assign_rolling_other:
  "n \<noteq> col @ ''_rolling_mean_'' @ str_nat window
   \<Longrightarrow> n \<noteq> col @ ''_rolling_std_'' @ str_nat window
   \<Longrightarrow> column (assign_rolling window col df) n = column df n"
  by (simp add: assign_rolling_def column_set_column Let_def split: option.splits)

lemma feature_col_cases:
  "col \<in> set feature_cols \<Longrightarrow> col = ''pm25'' \<or> col = ''pm10'' \<or> col = ''no2'' \<or> col = ''aqi''"
  by (simp add: feature_cols_def)

lemma column_add_time_features:
  "n \<noteq> ''hour'' \<Longrightarrow> n \<noteq> ''day_of_week'' \<Longrightarrow> n \<noteq> ''month'' \<Longrightarrow> n \<noteq> ''day_of_year''
   \<Longrightarrow> column (add_time_features e df) n = column df n"
  by (simp add: add_time_features_def Let_def column_set_column)

lemma column_add_weather_features:
  "n \<noteq> ''temp_estimate'' \<Longrightarrow> n \<noteq> ''humidity_estimate'' \<Longrightarrow> n \<noteq> ''wind_speed_estimate''
   \<Longrightarrow> column (add_weather_features e df) n = column df n"
  by (simp add: add_weather_features_def Let_def column_set_column split: option.splits)

lemma column_lag_24:
  assumes "col \<in> set feature_cols" and "column df col = Some c"
  shows "column (add_lag_features df) (col @ ''_lag_24'') = Some (shift 24 c)"
  using feature_col_cases[OF assms(1)] assms(2)
  by (elim disjE)
     (simp_all add: add_lag_features_def lag_periods_def feature_cols_def str_nat_values
        column_assign_lag_other column_assign_lag_same)

lemma column_lag_24_after_rolling:
  assumes "col \<in> set feature_cols"
  shows "column (add_rolling_features df) (col @ ''_lag_24'') = column df (col @ ''_lag_24'')"
  using feature_col_cases[OF assms(1)]
  by (elim disjE)
     (simp_all add: add_rolling_features_def window_sizes_def feature_cols_def str_nat_values
        column_assign_rolling_other)

lemma column_lag_24_engineered:
  assumes "col \<in> set feature_cols" and "column (sort_values df) col = Some c"
  shows "column (engineered e df) (col @ ''_lag_24'') = Some (shift 24 c)"
proof -
  have src: "column (add_time_features e (sort_values df)) col = Some c"
    using feature_col_cases[OF assms(1)] assms(2)
    by (elim disjE) (simp_all add: column_add_time_features)
  have "column (engineered e df) (col @ ''_lag_24'')
          = column (add_rolling_features (add_lag_features (add_time_features e (sort_values df))))
              (col @ ''_lag_24'')"
    unfolding engineered_def using feature_col_cases[OF assms(1)]
    by (elim disjE) (simp_all add: column_add_weather_features)
  then show ?thesis
    by (simp add: column_lag_24_after_rolling[OF assms(1)] column_lag_24[OF assms(1) src])
qed

lemma row_complete_iff:
  assumes "distinct (map fst (columns df))"
  shows "row_complete df i \<longleftrightarrow> (\<forall>name c. column df name = Some c \<longrightarrow> c ! i \<noteq> None)"
proof
  assume r: "row_complete df i"
  show "\<forall>name c. column df name = Some c \<longrightarrow> c ! i \<noteq> None"
  proof (intro allI impI)
    fix name c assume "column df name = Some c"
    then have "(name, c) \<in> set (columns df)" by (simp add: column_def map_of_SomeD)
    with r show "c ! i \<noteq> None" by (auto simp: row_complete_def list_all_iff)
  qed
next
  assume a: "\<forall>name c. column df name = Some c \<longrightarrow> c ! i \<noteq> None"
  have "c ! i \<noteq> None" if "(name, c) \<in> set (columns df)" for name c
  proof -
    have "column df name = Some c" using assms that by (simp add: column_def)
    with a show ?thesis by blast
  qed
  then show "row_complete df i" by (auto simp: row_complete_def list_all_iff)
qed

lemma filter_from:
  assumes "k \<le> n" and "\<And>i. i < n \<Longrightarrow> P i \<longleftrightarrow> k \<le> i"
  shows "filter P [0..<n] = [k..<n]"
proof -
  have "[0..<n] = [0..<k] @ [k..<n]" using assms(1) upt_add_eq_append[of 0 k "n - k"] by simp
  moreover have "filter P [0..<k] = []" using assms by (auto simp: filter_empty_conv)
  moreover have "filter P [k..<n] = [k..<n]" using assms(2) by (auto simp: filter_id_conv)
  ultimately show ?thesis by simp
qed

lemma dropna_ready:
  assumes "ready N df" and "column df name = Some (shift 24 c)" and "24 \<le> N"
  shows "dropna df = take_rows [24..<N] df"
proof -
  have len: "len df = N" and dist: "distinct (map fst (columns df))"
    using assms(1) by (simp_all add: ready_def)
  have lc: "length (shift 24 c) = N" using assms(1,2) unfolding ready_def by blast
  have "row_complete df i \<longleftrightarrow> 24 \<le> i" if "i < N" for i
  proof
    assume r: "row_complete df i"
    have "shift 24 c ! i \<noteq> None"
      using r assms(2) by (simp add: row_complete_iff[OF dist])
    then show "24 \<le> i" using that lc by (simp add: shift_nth split: if_splits)
  next
    assume "24 \<le> i"
    then show "row_complete df i"
      using assms(1) that unfolding row_complete_iff[OF dist] ready_def by blast
  qed
  then have "filter (row_complete df) [0..<N] = [24..<N]"
    using assms(3) by (intro filter_from) simp_all
  then show ?thesis by (simp add: dropna_def len)
qed

text \<open>
  Claim C4. For a well-formed table with no missing value, at least one of the columns
  pm25, pm10, no2, aqi, and more than 24 rows, \<open>prepare_features\<close> returns exactly
  (input length - 24) rows: the rows 24 onwards of the sorted table with its engineered
  columns. 24 is the largest lag period and the largest rolling window; the first 24 rows
  lack the 24-row lag and are dropped, none is filled in.
\<close>

theorem prepare_features_length:
  assumes "well_formed df"
    and "list_all (\<lambda>(name, c). None \<notin> set c) (columns df)"
    and "list_ex (\<lambda>col. column df col \<noteq> None) feature_cols"
    and "24 < len df"
  shows "int (len (prepare_features e df)) = int (len df) - 24
         \<and> prepare_features e df = take_rows [24..<len df] (engineered e df)
         \<and> Max (set lag_periods \<union> set window_sizes) = 24"
proof -
  from assms(3) obtain col where col: "col \<in> set feature_cols" "column df col \<noteq> None"
    by (auto simp: list_ex_iff)
  then obtain c where c: "column (sort_values df) col = Some c"
    by (auto simp: sort_values_def column_take_rows)
  have r: "ready (len df) (engineered e df)" by (rule ready_engineered[OF assms(1,2)])
  have ne: "\<not> df_empty df" using assms(4) by (auto simp: df_empty_def len_def)
  have "dropna (engineered e df) = take_rows [24..<len df] (engineered e df)"
    using assms(4) by (intro dropna_ready[OF r column_lag_24_engineered[OF col(1) c]]) simp
  then have eq: "prepare_features e df = take_rows [24..<len df] (engineered e df)"
    using ne by (simp add: prepare_features_def)
  have "int (len (prepare_features e df)) = int (len df) - 24"
    unfolding eq using assms(4) by simp
  moreover have "Max (set lag_periods \<union> set window_sizes) = 24"
    by (simp add: lag_periods_def window_sizes_def)
  ultimately show ?thesis using eq by simp
qed

theorem prepare_features_length_witness:
  "int (len (prepare_features calm hourly_day)) = int (len hourly_day) - 24
   \<and> prepare_features calm hourly_day = take_rows [24..<len hourly_day] (engineered calm hourly_day)
   \<and> Max (set lag_periods \<union> set window_sizes) = 24"
proof -
  have h1: "well_formed hourly_day" by (simp add: well_formed_def hourly_day_def)
  have h2: "list_all (\<lambda>(name, c). None \<notin> set c) (columns hourly_day)"
    by (simp add: hourly_day_def)
  have h3: "list_ex (\<lambda>col. column hourly_day col \<noteq> None) feature_cols"
    by (simp add: feature_cols_def column_def hourly_day_def)
  have h4: "24 < len hourly_day" by (simp add: len_def hourly_day_def)
  show ?thesis by (rule prepare_features_length [OF h1 h2 h3 h4])
qed

subsection \<open>No look-ahead in the engineered columns\<close>

lemma column_assign_rolling_mean:
  "n = col @ ''_rolling_mean_'' @ str_nat window \<Longrightarrow> column df col = Some c
   \<Longrightarrow> column (assign_rolling window col df) n = Some (rolling_mean window c)"
  by (auto simp: assign_rolling_def column_set_column Let_def split: option.splits)

lemma column_assign_rolling_std:
  "n = col @ ''_rolling_std_'' @ str_nat window \<Longrightarrow> column df col = Some c
   \<Longrightarrow> column (assign_rolling window col df) n = Some (rolling_std window c)"
  by (auto simp: assign_rolling_def column_set_column Let_def split: option.splits)

lemma lag_period_cases:
  "period \<in> set lag_periods
   \<Longrightarrow> period = 1 \<or> period = 3 \<or> period = 6 \<or> period = 12 \<or> period = 24"
  by (simp add: lag_periods_def)

lemma window_size_cases:
  "w \<in> set window_sizes \<Longrightarrow> w = 6 \<or> w = 12 \<or> w = 24"
  by (simp add: window_sizes_def)

lemma str_nat_Suc_0: "str_nat (Suc 0) = ''1''"
  by (simp add: str_nat.simps)

lemmas column_steps = str_nat_Suc_0
  add_lag_features_def add_rolling_features_def lag_periods_def window_sizes_def
  feature_cols_def str_nat_values engineered_def
  column_assign_lag_other column_assign_lag_same column_assign_rolling_other
  column_assign_rolling_mean column_assign_rolling_std
  column_add_time_features column_add_weather_features

lemma column_lag_engineered:
  assumes "col \<in> set feature_cols" and "period \<in> set lag_periods"
    and "column (sort_values df) col = Some c"
  shows "column (engineered e df) (col @ ''_lag_'' @ str_nat period) = Some (shift period c)"
  using feature_col_cases[OF assms(1)] lag_period_cases[OF assms(2)] assms(3)
  by (elim disjE) (simp_all add: column_steps)


lemma column_rolling_engineered:
  assumes "col \<in> set feature_cols" and "w \<in> set window_sizes"
    and "column (sort_values df) col = Some c"
  shows "column (engineered e df) (col @ ''_rolling_mean_'' @ str_nat w) = Some (rolling_mean w c)
         \<and> column (engineered e df) (col @ ''_rolling_std_'' @ str_nat w) = Some (rolling_std w c)"
  using feature_col_cases[OF assms(1)] window_size_cases[OF assms(2)] assms(3)
  by (elim disjE) (simp_all add: column_steps)


lemma sort_values_three_hours_changed:
  "sort_values three_hours_changed =
     \<lparr>timestamp = [0, 3600, 7200], columns = [(''aqi'', [Some 100, Some 120, Some 999])]\<rparr>"
  by (simp add: sort_values_def three_hours_changed_def len_def take_rows_def)

text \<open>
  Claim C8. No look-ahead: for each of the columns pm25, pm10, no2, aqi, each lag
  period and each window, the engineered lag, rolling-mean and rolling-std columns are
  the shift and the rolling statistics of the timestamp-sorted column, and their value
  at row \<open>i\<close> depends only on the rows at positions up to \<open>i\<close>: for two input tables
  whose sorted columns have the same length and agree on their first \<open>i + 1\<close> cells
  (they may differ in any later row), the three features agree at row \<open>i\<close>.
\<close>

theorem no_look_ahead_features:
  assumes "col \<in> set feature_cols" and "period \<in> set lag_periods" and "w \<in> set window_sizes"
    and "column (sort_values df) col = Some xs" and "column (sort_values df') col = Some ys"
    and "length xs = length ys" and "i < length xs"
    and "take (Suc i) xs = take (Suc i) ys"
  shows "column (engineered e df) (col @ ''_lag_'' @ str_nat period) = Some (shift period xs)
         \<and> column (engineered e' df') (col @ ''_lag_'' @ str_nat period) = Some (shift period ys)
         \<and> shift period xs ! i = shift period ys ! i
         \<and> column (engineered e df) (col @ ''_rolling_mean_'' @ str_nat w) = Some (rolling_mean w xs)
         \<and> column (engineered e' df') (col @ ''_rolling_mean_'' @ str_nat w) = Some (rolling_mean w ys)
         \<and> rolling_mean w xs ! i = rolling_mean w ys ! i
         \<and> column (engineered e df) (col @ ''_rolling_std_'' @ str_nat w) = Some (rolling_std w xs)
         \<and> column (engineered e' df') (col @ ''_rolling_std_'' @ str_nat w) = Some (rolling_std w ys)
         \<and> rolling_std w xs ! i = rolling_std w ys ! i"
  using column_lag_engineered[OF assms(1,2,4), of e] column_lag_engineered[OF assms(1,2,5), of e']
    column_rolling_engineered[OF assms(1,3,4), of e] column_rolling_engineered[OF assms(1,3,5), of e']
    no_look_ahead_columns[OF assms(6,7,8), of period w]
  by simp

theorem no_look_ahead_features_witness:
  "column (engineered calm three_hours) (''aqi'' @ ''_lag_'' @ str_nat 1)
     = Some (shift 1 [Some 100, Some 120, Some 140])
   \<and> column (engineered calm three_hours_changed) (''aqi'' @ ''_lag_'' @ str_nat 1)
     = Some (shift 1 [Some 100, Some 120, Some 999])
   \<and> shift 1 [Some 100, Some 120, Some 140] ! 1 = shift 1 [Some 100, Some 120, Some 999] ! 1
   \<and> column (engineered calm three_hours) (''aqi'' @ ''_rolling_mean_'' @ str_nat 6)
     = Some (rolling_mean 6 [Some 100, Some 120, Some 140])
   \<and> column (engineered calm three_hours_changed) (''aqi'' @ ''_rolling_mean_'' @ str_nat 6)
     = Some (rolling_mean 6 [Some 100, Some 120, Some 999])
   \<and> rolling_mean 6 [Some 100, Some 120, Some 140] ! 1
     = rolling_mean 6 [Some 100, Some 120, Some 999] ! 1
   \<and> column (engineered calm three_hours) (''aqi'' @ ''_rolling_std_'' @ str_nat 6)
     = Some (rolling_std 6 [Some 100, Some 120, Some 140])
   \<and> column (engineered calm three_hours_changed) (''aqi'' @ ''_rolling_std_'' @ str_nat 6)
     = Some (rolling_std 6 [Some 100, Some 120, Some 999])
   \<and> rolling_std 6 [Some 100, Some 120, Some 140] ! 1
     = rolling_std 6 [Some 100, Some 120, Some 999] ! 1"
proof -
  have h1: "''aqi'' \<in> set feature_cols" by (simp add: feature_cols_def)
  have h2: "1 \<in> set lag_periods" by (simp add: lag_periods_def)
  have h3: "6 \<in> set window_sizes" by (simp add: window_sizes_def)
  have h4: "column (sort_values three_hours) ''aqi'' = Some [Some 100, Some 120, Some 140]"
    by (simp add: sort_values_three_hours column_def)
  have h5: "column (sort_values three_hours_changed) ''aqi'' = Some [Some 100, Some 120, Some 999]"
    by (simp add: sort_values_three_hours_changed column_def)
  have h6: "length [Some 100, Some 120, Some (140::real)]
              = length [Some 100, Some 120, Some (999::real)]" by simp
  have h7: "1 < length [Some 100, Some 120, Some (140::real)]" by simp
  have h8: "take (Suc 1) [Some 100, Some 120, Some (140::real)]
              = take (Suc 1) [Some 100, Some 120, Some (999::real)]" by simp
  show ?thesis by (rule no_look_ahead_features [OF h1 h2 h3 h4 h5 h6 h7 h8])
qed

end
